theory Spec2Isabelle
  imports Complex_Main "HOL-Library.Char_ord" "HOL-Library.List_Lexorder"
begin

section \<open>Python strings\<close>

text \<open>
  A Python \<^verbatim>\<open>str\<close> is modelled as a \<^typ>\<open>string\<close>. The model covers ASCII text: a
  character is its code point, \<^verbatim>\<open>str.lower\<close> maps \<^verbatim>\<open>A-Z\<close> to \<^verbatim>\<open>a-z\<close> and leaves
  every other character alone, \<^verbatim>\<open>str.isupper\<close> holds of \<^verbatim>\<open>A-Z\<close>, and the word
  characters of the regular expression engine are \<^verbatim>\<open>[A-Za-z0-9_]\<close>.
\<close>

definition in_range :: "char \<Rightarrow> char \<Rightarrow> char \<Rightarrow> bool" where
  "in_range lo hi c = (lo \<le> c \<and> c \<le> hi)"

definition is_upper :: "char \<Rightarrow> bool" where
  "is_upper c = in_range (CHR ''A'') (CHR ''Z'') c"

definition is_lower :: "char \<Rightarrow> bool" where
  "is_lower c = in_range (CHR ''a'') (CHR ''z'') c"

definition is_digit :: "char \<Rightarrow> bool" where
  "is_digit c = in_range (CHR ''0'') (CHR ''9'') c"

definition lower_char :: "char \<Rightarrow> char" where
  "lower_char c = (if is_upper c then char_of (of_char c + (32::nat)) else c)"

definition upper_char :: "char \<Rightarrow> char" where
  "upper_char c = (if is_lower c then char_of (of_char c - (32::nat)) else c)"

text \<open>\<^verbatim>\<open>s.lower()\<close>\<close>

definition lower :: "string \<Rightarrow> string" where
  "lower s = map lower_char s"

text \<open>\<^verbatim>\<open>s.startswith(p)\<close>, the test behind \<^verbatim>\<open>in\<close> and \<^verbatim>\<open>count\<close>.\<close>

fun startswith :: "string \<Rightarrow> string \<Rightarrow> bool" where
  "startswith [] s = True"
| "startswith (p # ps) [] = False"
| "startswith (p # ps) (c # cs) = (p = c \<and> startswith ps cs)"

text \<open>\<^verbatim>\<open>sub in s\<close>: \<^verbatim>\<open>sub\<close> occurs in \<^verbatim>\<open>s\<close> as a contiguous substring.\<close>

fun py_in :: "string \<Rightarrow> string \<Rightarrow> bool" where
  "py_in sub [] = (sub = [])"
| "py_in sub (c # cs) = (startswith sub (c # cs) \<or> py_in sub cs)"

text \<open>
  \<^verbatim>\<open>s.count(sub)\<close>: the number of non-overlapping occurrences, scanning from the left;
  for the empty \<^verbatim>\<open>sub\<close> Python answers \<^verbatim>\<open>len(s) + 1\<close>.
\<close>

function py_count :: "string \<Rightarrow> string \<Rightarrow> nat" where
  "py_count sub s =
     (if sub = [] then length s + 1
      else if s = [] then 0
      else if startswith sub s then 1 + py_count sub (drop (length sub) s)
      else py_count sub (tl s))"
  by pat_completeness auto
termination
  by (relation "measure (\<lambda>(sub, s). length s)") (auto simp: neq_Nil_conv)

declare py_count.simps [simp del]

text \<open>\<^verbatim>\<open>any(p(x) for x in xs)\<close> and \<^verbatim>\<open>sum(1 for x in xs if p(x))\<close>\<close>

definition py_any :: "('a \<Rightarrow> bool) \<Rightarrow> 'a list \<Rightarrow> bool" where
  "py_any p xs = list_ex p xs"

definition count_if :: "('a \<Rightarrow> bool) \<Rightarrow> 'a list \<Rightarrow> nat" where
  "count_if p xs = length (filter p xs)"

section \<open>Regular expressions (Python's \<^verbatim>\<open>re\<close>, as far as the patterns of the source use it)\<close>

text \<open>
  The patterns of the source are written with character classes, concatenation,
  alternation, greedy \<^verbatim>\<open>?\<close>, \<^verbatim>\<open>+\<close>, \<^verbatim>\<open>{m}\<close>, \<^verbatim>\<open>{m,}\<close> and \<^verbatim>\<open>{m,n}\<close>, and the word boundary \<^verbatim>\<open>\b\<close>;
  every group is non-capturing, so \<^verbatim>\<open>re.findall\<close> returns the whole matches.
  A character class is a list of ranges (a single character is the range from itself to
  itself).
\<close>

datatype regex =
    Cls "(char \<times> char) list"
  | Eps
  | Seq regex regex
  | Alt regex regex
  | Opt regex
  | Star regex
  | Wordb

text \<open>A position in the text: the character before it (if any) and the rest of the text.\<close>

type_synonym pos = "char option \<times> string"

definition is_word :: "char \<Rightarrow> bool" where
  "is_word c = (is_upper c \<or> is_lower c \<or> is_digit c \<or> c = CHR ''_'')"

definition in_class :: "(char \<times> char) list \<Rightarrow> char \<Rightarrow> bool" where
  "in_class rs c = list_ex (\<lambda>(lo, hi). in_range lo hi c) rs"

text \<open>With \<^verbatim>\<open>re.IGNORECASE\<close> a character matches when either of its cases is in the class.\<close>

definition cls_match :: "bool \<Rightarrow> (char \<times> char) list \<Rightarrow> char \<Rightarrow> bool" where
  "cls_match ic rs c =
     (in_class rs c \<or> (ic \<and> (in_class rs (lower_char c) \<or> in_class rs (upper_char c))))"

definition at_boundary :: "pos \<Rightarrow> bool" where
  "at_boundary st =
     ((case fst st of None \<Rightarrow> False | Some c \<Rightarrow> is_word c) \<noteq>
      (case snd st of [] \<Rightarrow> False | c # _ \<Rightarrow> is_word c))"

text \<open>The first occurrences of the elements of a list, in their order.\<close>

fun nub_acc :: "'a list \<Rightarrow> 'a list \<Rightarrow> 'a list" where
  "nub_acc seen [] = []"
| "nub_acc seen (x # xs) =
     (if x \<in> set seen then nub_acc seen xs else x # nub_acc (x # seen) xs)"

definition nub :: "'a list \<Rightarrow> 'a list" where
  "nub xs = nub_acc [] xs"

text \<open>
  \<open>ends ic r st\<close> lists the positions where a match of \<open>r\<close> starting at \<open>st\<close> can end, in
  the order in which the backtracking matcher reaches them: the left alternative before
  the right one, one more iteration before stopping. The head of the list is the match
  that \<^verbatim>\<open>re\<close> reports at \<open>st\<close>. A position is listed once, where the matcher reaches it
  first: it comes back to a position only after everything that follows has failed from
  there, and then fails again. An iteration of a repetition that consumes nothing is not
  repeated (no pattern of the source has such a body).
\<close>

function ends :: "bool \<Rightarrow> regex \<Rightarrow> pos \<Rightarrow> pos list" where
  "ends ic (Cls rs) st =
     (case snd st of [] \<Rightarrow> []
      | c # cs \<Rightarrow> if cls_match ic rs c then [(Some c, cs)] else [])"
| "ends ic Eps st = [st]"
| "ends ic (Seq a b) st = nub (concat (map (ends ic b) (ends ic a st)))"
| "ends ic (Alt a b) st = nub (ends ic a st @ ends ic b st)"
| "ends ic (Opt a) st = nub (ends ic a st @ [st])"
| "ends ic (Star a) st =
     nub (concat (map (\<lambda>st'. if length (snd st') < length (snd st)
                               then ends ic (Star a) st' else [])
                    (ends ic a st)) @ [st])"
| "ends ic Wordb st = (if at_boundary st then [st] else [])"
  by pat_completeness auto
termination
  by (relation "measures [\<lambda>(ic, r, st). size r, \<lambda>(ic, r, st). length (snd st)]") auto

text \<open>
  \<^verbatim>\<open>re.findall(pattern, text, flags)\<close>: scan from the left; at each position take the
  match the matcher reports, if any, and go on after it, so the matches do not overlap;
  without a match go on one character further. (An empty match is recorded and the scan
  goes on one character further; no pattern of the source matches the empty string.)
\<close>

function findall_from :: "bool \<Rightarrow> regex \<Rightarrow> pos \<Rightarrow> string list" where
  "findall_from ic r st =
     (case ends ic r st of
        [] \<Rightarrow> (case snd st of [] \<Rightarrow> [] | c # cs \<Rightarrow> findall_from ic r (Some c, cs))
      | st' # _ \<Rightarrow>
          if length (snd st') < length (snd st)
          then take (length (snd st) - length (snd st')) (snd st) # findall_from ic r st'
          else [] # (case snd st of [] \<Rightarrow> [] | c # cs \<Rightarrow> findall_from ic r (Some c, cs)))"
  by pat_completeness auto
termination
  by (relation "measure (\<lambda>(ic, r, st). length (snd st))") auto

declare findall_from.simps [simp del]

definition findall :: "bool \<Rightarrow> regex \<Rightarrow> string \<Rightarrow> string list" where
  "findall ic r s = findall_from ic r (None, s)"

text \<open>\<^verbatim>\<open>re.search(pattern, text)\<close> as a truth value: there is a match somewhere.\<close>

definition re_search :: "bool \<Rightarrow> regex \<Rightarrow> string \<Rightarrow> bool" where
  "re_search ic r s = (findall ic r s \<noteq> [])"

text \<open>Pattern syntax: a literal character, a literal string, \<^verbatim>\<open>r{n}\<close>, \<^verbatim>\<open>r{0,n}\<close>, \<^verbatim>\<open>r+\<close>.\<close>

definition chr :: "char \<Rightarrow> regex" where
  "chr c = Cls [(c, c)]"

fun lit :: "string \<Rightarrow> regex" where
  "lit [] = Eps"
| "lit [c] = chr c"
| "lit (c # cs) = Seq (chr c) (lit cs)"

fun rep_exact :: "nat \<Rightarrow> regex \<Rightarrow> regex" where
  "rep_exact 0 r = Eps"
| "rep_exact (Suc 0) r = r"
| "rep_exact (Suc n) r = Seq r (rep_exact n r)"

fun rep_upto :: "nat \<Rightarrow> regex \<Rightarrow> regex" where
  "rep_upto 0 r = Eps"
| "rep_upto (Suc n) r = Opt (Seq r (rep_upto n r))"

definition rep_plus :: "regex \<Rightarrow> regex" where
  "rep_plus r = Seq r (Star r)"

definition rep_atleast :: "nat \<Rightarrow> regex \<Rightarrow> regex" where
  "rep_atleast n r = Seq (rep_exact n r) (Star r)"

section \<open>Indicator patterns (backend/utils/ioc_extractor.py)\<close>

definition az :: "char \<times> char" where "az = (CHR ''a'', CHR ''z'')"
definition AZ :: "char \<times> char" where "AZ = (CHR ''A'', CHR ''Z'')"
definition d09 :: "char \<times> char" where "d09 = (CHR ''0'', CHR ''9'')"
definition one :: "char \<Rightarrow> char \<times> char" where "one c = (c, c)"

text \<open>\<^verbatim>\<open>(?:25[0-5]|2[0-4][0-9]|[01]?[0-9][0-9]?)\<close>\<close>

definition octet :: regex where
  "octet =
     Alt (Seq (lit ''25'') (Cls [(CHR ''0'', CHR ''5'')]))
    (Alt (Seq (chr CHR ''2'') (Seq (Cls [(CHR ''0'', CHR ''4'')]) (Cls [d09])))
         (Seq (Opt (Cls [one CHR ''0'', one CHR ''1''])) (Seq (Cls [d09]) (Opt (Cls [d09])))))"

text \<open>\<^verbatim>\<open>\b(?:(?:25[0-5]|2[0-4][0-9]|[01]?[0-9][0-9]?)\.){3}(?:25[0-5]|2[0-4][0-9]|[01]?[0-9][0-9]?)\b\<close>\<close>

definition ipv4_pattern :: regex where
  "ipv4_pattern =
     Seq Wordb (Seq (rep_exact 3 (Seq octet (chr CHR ''.''))) (Seq octet Wordb))"

text \<open>
  \<^verbatim>\<open>http[s]?://(?:[a-zA-Z]|[0-9]|[$-_@.&+]|[!*\\(\\),]|(?:%[0-9a-fA-F][0-9a-fA-F]))+\<close>;
  \<^verbatim>\<open>$-_\<close> is the range from \<^verbatim>\<open>$\<close> to \<^verbatim>\<open>_\<close>, and \<^verbatim>\<open>\\\<close> is the backslash (code 0x5C).
\<close>

definition hexdigit :: regex where
  "hexdigit = Cls [d09, (CHR ''a'', CHR ''f''), (CHR ''A'', CHR ''F'')]"

definition url_pattern :: regex where
  "url_pattern =
     Seq (lit ''http'') (Seq (Opt (Cls [one CHR ''s'']))
    (Seq (lit ''://'')
       (rep_plus
          (Alt (Cls [az, AZ])
          (Alt (Cls [d09])
          (Alt (Cls [(CHR ''$'', CHR ''_''), one CHR ''@'', one CHR ''.'', one CHR ''&'',
                     one CHR ''+''])
          (Alt (Cls [one CHR ''!'', one CHR ''*'', one (CHR 0x5C), one CHR ''('',
                     one (CHR 0x5C), one CHR '')'', one CHR '',''])
               (Seq (chr CHR ''%'') (Seq hexdigit hexdigit)))))))))"

text \<open>\<^verbatim>\<open>\b[A-Za-z0-9._%+-]+@[A-Za-z0-9.-]+\.[A-Z|a-z]{2,}\b\<close>\<close>

definition email_pattern :: regex where
  "email_pattern =
     Seq Wordb
    (Seq (rep_plus (Cls [AZ, az, d09, one CHR ''.'', one CHR ''_'', one CHR ''%'', one CHR ''+'',
                     one CHR ''-'']))
    (Seq (chr CHR ''@'')
    (Seq (rep_plus (Cls [AZ, az, d09, one CHR ''.'', one CHR ''-'']))
    (Seq (chr CHR ''.'')
    (Seq (rep_atleast 2 (Cls [AZ, one CHR ''|'', az])) Wordb)))))"

text \<open>\<^verbatim>\<open>\b(?:[a-zA-Z0-9](?:[a-zA-Z0-9\-]{0,61}[a-zA-Z0-9])?\.)+[a-zA-Z]{2,}\b\<close>\<close>

definition domain_pattern :: regex where
  "domain_pattern =
     Seq Wordb
    (Seq (rep_plus
            (Seq (Cls [az, AZ, d09])
            (Seq (Opt (Seq (rep_upto 61 (Cls [az, AZ, d09, one CHR ''-'']))
                           (Cls [az, AZ, d09])))
                 (chr CHR ''.''))))
    (Seq (rep_atleast 2 (Cls [az, AZ])) Wordb))"

text \<open>\<^verbatim>\<open>\b[a-fA-F0-9]{32}\b\<close>, \<^verbatim>\<open>\b[a-fA-F0-9]{40}\b\<close>, \<^verbatim>\<open>\b[a-fA-F0-9]{64}\b\<close>\<close>

definition hash_pattern :: "nat \<Rightarrow> regex" where
  "hash_pattern n =
     Seq Wordb (Seq (rep_exact n (Cls [(CHR ''a'', CHR ''f''), (CHR ''A'', CHR ''F''), d09])) Wordb)"

text \<open>\<^verbatim>\<open>self.patterns\<close>, in the insertion order of the dictionary.\<close>

definition patterns :: "(string \<times> regex) list" where
  "patterns =
     [(''ipv4'', ipv4_pattern), (''url'', url_pattern), (''email'', email_pattern),
      (''domain'', domain_pattern), (''md5'', hash_pattern 32), (''sha1'', hash_pattern 40),
      (''sha256'', hash_pattern 64)]"

text \<open>
  \<^verbatim>\<open>list(dict.fromkeys(matches))\<close>: the keys of a dictionary in insertion order; a key
  that is already there keeps its place.
\<close>

definition dict_fromkeys :: "'a list \<Rightarrow> 'a list" where
  "dict_fromkeys xs = foldl (\<lambda>d k. if k \<in> set d then d else d @ [k]) [] xs"

text \<open>
  \<^verbatim>\<open>extract_iocs(text)\<close>: the dictionary from indicator type to its deduplicated
  matches, as an association list in insertion order; a type without a match has no entry.
\<close>

definition extract_iocs :: "string \<Rightarrow> (string \<times> string list) list" where
  "extract_iocs text =
     concat (map (\<lambda>(ioc_type, pattern).
                    let matches = findall True pattern text;
                        unique_matches = dict_fromkeys matches
                    in if unique_matches \<noteq> [] then [(ioc_type, unique_matches)] else [])
                 patterns)"

text \<open>\<^verbatim>\<open>iocs.get(ioc_type, [])\<close>, to read one entry of that dictionary.\<close>

definition iocs_of_type :: "(string \<times> string list) list \<Rightarrow> string \<Rightarrow> string list" where
  "iocs_of_type iocs ioc_type = (case map_of iocs ioc_type of None \<Rightarrow> [] | Some vs \<Rightarrow> vs)"

section \<open>Email data and indicators\<close>

text \<open>
  The \<^verbatim>\<open>email_data\<close> dictionary. A key that is absent is \<open>None\<close>; a key that is present
  holds a value of the type its producers give it (the parser of
  backend/utils/email_parser.py, and \<^verbatim>\<open>prepare_training_data\<close> for \<^verbatim>\<open>full_text\<close> and the
  indicator summary). \<open>headers\<close> holds \<^verbatim>\<open>str(email_data['headers'])\<close>, the only way the
  modelled code reads the headers. The keys \<^verbatim>\<open>date\<close> and \<^verbatim>\<open>message_id\<close> are read by none
  of the modelled functions and are left out.
\<close>

record attachment =
  filename :: string
  size_bytes :: nat
  content_type :: string
  md5_hash :: string

record email_data =
  sender :: "string option"
  recipients :: "string list option"
  subject :: "string option"
  headers :: "string option"
  body :: "string option"
  attachments :: "attachment list option"
  full_text :: "string option"
  ioc_count :: "nat option"
  has_ipv4 :: "bool option"
  has_url :: "bool option"
  has_email :: "bool option"
  has_hash :: "bool option"
  ipv4_count :: "nat option"
  url_count :: "nat option"
  email_count :: "nat option"
  domain_count :: "nat option"

text \<open>\<^verbatim>\<open>d.get(key, default)\<close>\<close>

definition get_or :: "'a option \<Rightarrow> 'a \<Rightarrow> 'a" where
  "get_or field dflt = (case field of None \<Rightarrow> dflt | Some v \<Rightarrow> v)"

text \<open>The empty dictionary \<^verbatim>\<open>{}\<close>.\<close>

definition empty_email :: email_data where
  "empty_email =
     \<lparr>sender = None, recipients = None, subject = None, headers = None, body = None,
      attachments = None, full_text = None, ioc_count = None, has_ipv4 = None,
      has_url = None, has_email = None, has_hash = None, ipv4_count = None,
      url_count = None, email_count = None, domain_count = None\<rparr>"

text \<open>An extracted indicator: \<^verbatim>\<open>{'ioc_type': ..., 'ioc_value': ..., 'severity': ...}\<close>.\<close>

record ioc =
  ioc_type :: string
  ioc_value :: string
  severity :: string

definition newline :: string where
  "newline = [CHR 0x0A]"

section \<open>Risk level (backend/app.py)\<close>

text \<open>
  \<^verbatim>\<open>get_risk_level(is_phishing, confidence_score)\<close>. The confidence is an \<^verbatim>\<open>int\<close> on the
  rule path and a \<^verbatim>\<open>float\<close> on the model path; it is a real number here.
\<close>

definition get_risk_level :: "bool \<Rightarrow> real \<Rightarrow> string" where
  "get_risk_level is_phishing confidence_score =
     (if is_phishing then
        (if confidence_score \<ge> 80 then ''Critical''
         else if confidence_score \<ge> 60 then ''High''
         else ''Medium'')
      else
        (if confidence_score \<ge> 40 then ''Low''
         else ''Safe''))"

section \<open>Indicator severity (backend/utils/ioc_extractor.py)\<close>

text \<open>The list local to \<^verbatim>\<open>_determine_severity\<close> (seven entries, without \<^verbatim>\<open>.click\<close>).\<close>

definition severity_suspicious_tlds :: "string list" where
  "severity_suspicious_tlds =
     [''.tk'', ''.ml'', ''.ga'', ''.cf'', ''.gq'', ''.xyz'', ''.top'']"

definition determine_severity :: "string \<Rightarrow> string \<Rightarrow> string" where
  "determine_severity ty v =
     (if ty \<in> set [''md5'', ''sha1'', ''sha256''] then ''high''
      else if ty = ''ipv4'' then ''medium''
      else if ty = ''url'' then
        (if py_any (\<lambda>tld. py_in tld (lower v)) severity_suspicious_tlds then ''high''
         else ''medium'')
      else if ty = ''domain'' then
        (if py_any (\<lambda>tld. py_in tld (lower v)) severity_suspicious_tlds then ''high''
         else ''low'')
      else ''low'')"

text \<open>\<^verbatim>\<open>extract_from_email(email_data)\<close>\<close>

definition extract_from_email :: "email_data \<Rightarrow> ioc list" where
  "extract_from_email email_data =
     (let combined_text =
            (case sender email_data of None \<Rightarrow> [] | Some s \<Rightarrow> s @ newline) @
            (case subject email_data of None \<Rightarrow> [] | Some s \<Rightarrow> s @ newline) @
            (case body email_data of None \<Rightarrow> [] | Some s \<Rightarrow> s @ newline) @
            (case headers email_data of None \<Rightarrow> [] | Some s \<Rightarrow> s @ newline);
          extracted_iocs = extract_iocs combined_text
      in concat (map (\<lambda>(t, vs).
                        map (\<lambda>v. \<lparr>ioc_type = t, ioc_value = v,
                                   severity = determine_severity t v\<rparr>) vs)
                     extracted_iocs))"

section \<open>Rule engine (backend/app.py)\<close>

definition urgency_words :: "string list" where
  "urgency_words =
     [''urgent'', ''immediately'', ''action required'', ''verify'', ''suspend'',
      ''limited time'', ''act now'', ''expires'', ''warning'']"

text \<open>The keyword list of \<^verbatim>\<open>detect_phishing_simple\<close> (twelve entries).\<close>

definition suspicious_keywords :: "string list" where
  "suspicious_keywords =
     [''password'', ''credit card'', ''social security'', ''bank account'',
      ''verify account'', ''click here'', ''winner'', ''prize'', ''lottery'',
      ''inheritance'', ''suspended'', ''confirm'']"

text \<open>The keyword list of \<^verbatim>\<open>calculate_confidence_score\<close> (nine entries).\<close>

definition confidence_suspicious_keywords :: "string list" where
  "confidence_suspicious_keywords =
     [''password'', ''credit card'', ''social security'', ''bank account'',
      ''verify account'', ''click here'', ''winner'', ''prize'', ''lottery'']"

definition suspicious_tlds :: "string list" where
  "suspicious_tlds =
     [''.tk'', ''.ml'', ''.ga'', ''.cf'', ''.gq'', ''.xyz'', ''.top'', ''.click'']"

text \<open>\<^verbatim>\<open>subject + ' ' + body\<close>, both lowercased.\<close>

definition combined_lower :: "email_data \<Rightarrow> string" where
  "combined_lower email_data =
     lower (get_or (subject email_data) []) @ '' '' @ lower (get_or (body email_data) [])"

text \<open>The contribution of the indicators: the loop over \<^verbatim>\<open>iocs\<close> in \<^verbatim>\<open>detect_phishing_simple\<close>.\<close>

definition ioc_points :: "ioc \<Rightarrow> nat" where
  "ioc_points i =
     (if ioc_type i \<in> set [''md5'', ''sha1'', ''sha256''] then 10 else 0) +
     (if severity i = ''high'' then 15 else if severity i = ''medium'' then 8 else 0)"

definition ioc_score :: "ioc list \<Rightarrow> nat" where
  "ioc_score iocs = foldl (\<lambda>acc i. acc + ioc_points i) 0 iocs"

text \<open>
  The value of \<^verbatim>\<open>phishing_score\<close> at the end of \<^verbatim>\<open>detect_phishing_simple\<close>, and the
  function itself, which compares it with 50.
\<close>

definition phishing_score :: "email_data \<Rightarrow> ioc list \<Rightarrow> nat" where
  "phishing_score email_data iocs =
     (let combined_text = combined_lower email_data;
          body_l = lower (get_or (body email_data) []);
          urgency_count = count_if (\<lambda>word. py_in word combined_text) urgency_words;
          suspicious_count = count_if (\<lambda>keyword. py_in keyword combined_text) suspicious_keywords;
          sender_l = lower (get_or (sender email_data) []);
          link_count = py_count ''http://'' body_l + py_count ''https://'' body_l;
          ip_in_urls = py_any (\<lambda>i. ioc_type i = ''ipv4'' \<and> py_in ''http'' combined_text) iocs
      in (if urgency_count \<ge> 3 then 30 else if urgency_count \<ge> 1 then 15 else 0)
       + (if suspicious_count \<ge> 3 then 25 else if suspicious_count \<ge> 1 then 10 else 0)
       + (if py_any (\<lambda>tld. py_in tld sender_l) suspicious_tlds then 35 else 0)
       + min (ioc_score iocs) 40
       + (if link_count > 5 then 15 else if link_count > 2 then 5 else 0)
       + (if ip_in_urls then 20 else 0))"

definition detect_phishing_simple :: "email_data \<Rightarrow> ioc list \<Rightarrow> bool" where
  "detect_phishing_simple email_data iocs = (phishing_score email_data iocs \<ge> 50)"

definition calculate_confidence_score :: "email_data \<Rightarrow> ioc list \<Rightarrow> nat" where
  "calculate_confidence_score email_data iocs =
     (let combined_text = combined_lower email_data;
          urgency_count = count_if (\<lambda>word. py_in word combined_text) urgency_words;
          suspicious_count =
            count_if (\<lambda>keyword. py_in keyword combined_text) confidence_suspicious_keywords;
          sender_l = lower (get_or (sender email_data) []);
          high_severity_iocs = count_if (\<lambda>i. severity i = ''high'') iocs;
          medium_severity_iocs = count_if (\<lambda>i. severity i = ''medium'') iocs
      in min (min (urgency_count * 8) 25
            + min (suspicious_count * 7) 20
            + (if py_any (\<lambda>tld. py_in tld sender_l) suspicious_tlds then 20 else 0)
            + min (high_severity_iocs * 10) 20
            + min (medium_severity_iocs * 5) 15) 100)"

section \<open>Detection in \<^verbatim>\<open>upload_email\<close> (backend/app.py)\<close>

text \<open>
  What Python raises and \<^verbatim>\<open>except Exception\<close> catches. \<open>NotANumber\<close> stands for a \<^verbatim>\<open>nan\<close>
  result (\<^verbatim>\<open>np.mean\<close> of an empty list, which only warns): no real number models it, so
  the model counts it as a failure.
\<close>

datatype py_error =
    ValueError | IndexError | KeyError | TypeError | ZeroDivisionError | NotANumber
  | FileNotFoundError | AttributeError | OtherError string

text \<open>The \<^verbatim>\<open>MLPrediction\<close> row and the verdict written to the email record.\<close>

record ml_prediction =
  predicted_class :: string
  probability :: real
  model_version :: string

record verdict =
  is_phishing :: bool
  confidence_score :: real
  prediction :: ml_prediction

text \<open>
  The rule-based verdict: the body of the \<^verbatim>\<open>except\<close> branch, which is also the body of
  the \<^verbatim>\<open>else\<close> branch taken without a model.
\<close>

definition rule_based :: "email_data \<Rightarrow> ioc list \<Rightarrow> verdict" where
  "rule_based email_data extracted_iocs =
     (let is_ph = detect_phishing_simple email_data extracted_iocs;
          conf = real (calculate_confidence_score email_data extracted_iocs)
      in \<lparr>is_phishing = is_ph, confidence_score = conf,
          prediction = \<lparr>predicted_class = (if is_ph then ''phishing'' else ''legitimate''),
                         probability = conf / 100,
                         model_version = ''rule-based-v1.0''\<rparr>\<rparr>)"

text \<open>
  The \<^verbatim>\<open>try\<close> block. \<open>predict\<close> is \<^verbatim>\<open>ml_model.predict\<close> (scikit-learn behind it): it returns
  the label and the class probabilities, or raises. \<^verbatim>\<open>ml_probabilities[1]\<close> raises
  \<^verbatim>\<open>IndexError\<close> on fewer than two probabilities.
\<close>

definition ml_attempt ::
  "(email_data \<Rightarrow> py_error + int \<times> real list) \<Rightarrow> string \<Rightarrow> email_data \<Rightarrow> ioc list
     \<Rightarrow> py_error + verdict" where
  "ml_attempt predict ml_version email_data extracted_iocs =
     (case predict email_data of
        Inl e \<Rightarrow> Inl e
      | Inr (ml_prediction_result, ml_probabilities) \<Rightarrow>
          if length ml_probabilities < 2 then Inl IndexError
          else
            let is_phishing_ml = (ml_prediction_result = 1);
                confidence_ml = (ml_probabilities ! 1) * 100
            in Inr \<lparr>is_phishing = is_phishing_ml, confidence_score = confidence_ml,
                    prediction =
                      \<lparr>predicted_class = (if is_phishing_ml then ''phishing'' else ''legitimate''),
                       probability = ml_probabilities ! 1,
                       model_version = ml_version\<rparr>\<rparr>)"

text \<open>
  Lines 282 to 329 of \<^verbatim>\<open>upload_email\<close>: the model first when one is loaded, the rules when
  the attempt raises or no model is loaded. The result is a sum so that an exception
  leaving the block would show as \<open>Inl\<close>.
\<close>

definition upload_email_detection ::
  "bool \<Rightarrow> (email_data \<Rightarrow> py_error + int \<times> real list) \<Rightarrow> string \<Rightarrow> email_data \<Rightarrow> ioc list
     \<Rightarrow> py_error + verdict" where
  "upload_email_detection ml_model_available predict ml_version email_data extracted_iocs =
     (if ml_model_available then
        (case ml_attempt predict ml_version email_data extracted_iocs of
           Inr v \<Rightarrow> Inr v
         | Inl e \<Rightarrow> Inr (rule_based email_data extracted_iocs))
      else Inr (rule_based email_data extracted_iocs))"

section \<open>Feature extraction (ml/feature_extraction.py)\<close>

definition fe_urgency_words :: "string list" where
  "fe_urgency_words =
     [''urgent'', ''immediately'', ''action required'', ''verify'', ''suspend'',
      ''limited time'', ''act now'', ''confirm'', ''expires'', ''update'', ''warning'']"

definition fe_suspicious_keywords :: "string list" where
  "fe_suspicious_keywords =
     [''password'', ''credit card'', ''social security'', ''bank account'',
      ''verify account'', ''click here'', ''winner'', ''prize'', ''lottery'',
      ''inheritance'', ''transfer'', ''refund'', ''tax'', ''suspended'']"

definition fe_suspicious_tlds :: "string list" where
  "fe_suspicious_tlds =
     [''.tk'', ''.ml'', ''.ga'', ''.cf'', ''.gq'', ''.xyz'', ''.top'', ''.work'',
      ''.click'', ''.link'', ''.download'', ''.stream'']"

text \<open>
  \<^verbatim>\<open>text.split()\<close>: the maximal runs of characters that are not whitespace (tab, line feed,
  vertical tab, form feed, carriage return, the separators 0x1C to 0x1F, and space).
\<close>

definition is_space :: "char \<Rightarrow> bool" where
  "is_space c = (in_range (CHR 0x09) (CHR 0x0D) c \<or> in_range (CHR 0x1C) (CHR 0x1F) c \<or> c = CHR '' '')"

fun split_acc :: "string \<Rightarrow> string \<Rightarrow> string list" where
  "split_acc w [] = (if w = [] then [] else [w])"
| "split_acc w (c # cs) =
     (if is_space c then (if w = [] then split_acc [] cs else w # split_acc [] cs)
      else split_acc (w @ [c]) cs)"

definition py_split :: "string \<Rightarrow> string list" where
  "py_split text = split_acc [] text"

text \<open>Operations that can fail: \<^verbatim>\<open>/\<close>, \<^verbatim>\<open>np.mean\<close>, \<^verbatim>\<open>max\<close>, and sequencing of failures.\<close>

definition py_div :: "real \<Rightarrow> real \<Rightarrow> py_error + real" where
  "py_div a b = (if b = 0 then Inl ZeroDivisionError else Inr (a / b))"

definition np_mean :: "real list \<Rightarrow> py_error + real" where
  "np_mean xs = (if xs = [] then Inl NotANumber else Inr (sum_list xs / real (length xs)))"

definition py_max :: "nat list \<Rightarrow> py_error + nat" where
  "py_max xs = (if xs = [] then Inl ValueError else Inr (foldl max (hd xs) (tl xs)))"

definition bind_err :: "py_error + 'a \<Rightarrow> ('a \<Rightarrow> py_error + 'b) \<Rightarrow> py_error + 'b" where
  "bind_err m f = (case m of Inl e \<Rightarrow> Inl e | Inr v \<Rightarrow> f v)"

fun map_err :: "('a \<Rightarrow> py_error + 'b) \<Rightarrow> 'a list \<Rightarrow> py_error + 'b list" where
  "map_err f [] = Inr []"
| "map_err f (x # xs) =
     bind_err (f x) (\<lambda>y. bind_err (map_err f xs) (\<lambda>ys. Inr (y # ys)))"

text \<open>\<^verbatim>\<open>float(b)\<close> of a truth value.\<close>

definition b2r :: "bool \<Rightarrow> real" where
  "b2r b = (if b then 1 else 0)"

text \<open>
  A feature dictionary is an association list in insertion order; every value is given as
  the number \<^verbatim>\<open>float\<close> makes of it. \<^verbatim>\<open>d[k] = v\<close> keeps the place of a key that is already
  there, and \<^verbatim>\<open>{**a, **b}\<close> sets the entries of \<^verbatim>\<open>b\<close> in \<^verbatim>\<open>a\<close> one after the other.
\<close>

type_synonym features = "(string \<times> real) list"

definition dict_set :: "features \<Rightarrow> string \<Rightarrow> real \<Rightarrow> features" where
  "dict_set d k v =
     (if k \<in> set (map fst d) then map (\<lambda>(k', v'). if k' = k then (k', v) else (k', v')) d
      else d @ [(k, v)])"

definition dict_update :: "features \<Rightarrow> features \<Rightarrow> features" where
  "dict_update d e = foldl (\<lambda>acc (k, v). dict_set acc k v) d e"

text \<open>\<^verbatim>\<open>features[name]\<close>\<close>

definition dict_lookup :: "features \<Rightarrow> string \<Rightarrow> py_error + real" where
  "dict_lookup d k = (case map_of d k of None \<Rightarrow> Inl KeyError | Some v \<Rightarrow> Inr v)"

definition extract_text_features :: "string \<Rightarrow> py_error + features" where
  "extract_text_features text =
     bind_err (if py_split text \<noteq> [] then np_mean (map (\<lambda>word. real (length word)) (py_split text))
               else Inr 0)
       (\<lambda>avg_word_length.
     bind_err (if length text > 0
               then py_div (real (count_if is_upper text)) (real (length text))
               else Inr 0)
       (\<lambda>uppercase_ratio.
     Inr [(''length'', real (length text)),
          (''num_words'', real (length (py_split text))),
          (''num_sentences'',
             real (py_count ''.'' text + py_count ''!'' text + py_count ''?'' text)),
          (''avg_word_length'', avg_word_length),
          (''num_exclamation'', real (py_count ''!'' text)),
          (''num_question'', real (py_count ''?'' text)),
          (''num_uppercase'', real (count_if is_upper text)),
          (''uppercase_ratio'', uppercase_ratio)]))"

text \<open>\<^verbatim>\<open>\d{1,3}\.\d{1,3}\.\d{1,3}\.\d{1,3}\<close>\<close>

definition digits13 :: regex where
  "digits13 = Seq (Cls [d09]) (rep_upto 2 (Cls [d09]))"

definition ip_in_url_pattern :: regex where
  "ip_in_url_pattern =
     Seq digits13 (Seq (chr CHR ''.'') (Seq digits13 (Seq (chr CHR ''.'')
    (Seq digits13 (Seq (chr CHR ''.'') digits13)))))"

definition shorteners :: "string list" where
  "shorteners = [''bit.ly'', ''tinyurl'', ''goo.gl'', ''t.co'', ''ow.ly'']"

definition extract_url_features :: "string \<Rightarrow> py_error + features" where
  "extract_url_features text =
     (let urls = findall True url_pattern text in
      bind_err (if urls \<noteq> [] then np_mean (map (\<lambda>url. real (length url)) urls) else Inr 0)
        (\<lambda>avg_url_length.
      bind_err (if urls \<noteq> [] then py_max (map length urls) else Inr 0)
        (\<lambda>max_url_length.
      Inr [(''num_links'', real (length urls)),
           (''has_shortened_url'',
              b2r (if urls \<noteq> []
                   then py_any (\<lambda>url. py_any (\<lambda>domain. py_in domain (lower url)) shorteners) urls
                   else False)),
           (''has_suspicious_tld'',
              b2r (if urls \<noteq> []
                   then py_any (\<lambda>url. py_any (\<lambda>tld. py_in tld (lower url)) fe_suspicious_tlds) urls
                   else False)),
           (''has_ip_address'',
              b2r (if urls \<noteq> [] then py_any (\<lambda>url. re_search False ip_in_url_pattern url) urls
                   else False)),
           (''num_at_symbols'', real (sum_list (map (\<lambda>url. py_count ''@'' url) urls))),
           (''avg_url_length'', avg_url_length),
           (''max_url_length'', real max_url_length)])))"

definition extract_email_features :: "email_data \<Rightarrow> py_error + features" where
  "extract_email_features email_data =
     (let sender_v = get_or (sender email_data) [];
          subject_v = get_or (subject email_data) [];
          body_v = get_or (body email_data) []
      in Inr [(''subject_length'', real (length subject_v)),
              (''body_length'', real (length body_v)),
              (''sender_has_numbers'', b2r (re_search False (Cls [d09]) sender_v)),
              (''num_recipients'', real (length (get_or (recipients email_data) []))),
              (''has_attachments'', b2r (length (get_or (attachments email_data) []) > 0)),
              (''num_attachments'', real (length (get_or (attachments email_data) [])))])"

definition extract_keyword_features :: "string \<Rightarrow> py_error + features" where
  "extract_keyword_features text =
     (let text_lower = lower text
      in Inr [(''num_urgency_words'',
                 real (sum_list (map (\<lambda>word. py_count word text_lower) fe_urgency_words))),
              (''has_urgency_words'',
                 b2r (py_any (\<lambda>word. py_in word text_lower) fe_urgency_words)),
              (''num_suspicious_keywords'',
                 real (sum_list (map (\<lambda>keyword. py_count keyword text_lower)
                                     fe_suspicious_keywords))),
              (''has_suspicious_keywords'',
                 b2r (py_any (\<lambda>keyword. py_in keyword text_lower) fe_suspicious_keywords))])"

definition extract_ioc_features :: "email_data \<Rightarrow> py_error + features" where
  "extract_ioc_features email_data =
     Inr [(''ioc_total_count'', real (get_or (ioc_count email_data) 0)),
          (''has_ipv4_ioc'', b2r (get_or (has_ipv4 email_data) False)),
          (''has_url_ioc'', b2r (get_or (has_url email_data) False)),
          (''has_email_ioc'', b2r (get_or (has_email email_data) False)),
          (''has_hash_ioc'', b2r (get_or (has_hash email_data) False)),
          (''ipv4_ioc_count'', real (get_or (ipv4_count email_data) 0)),
          (''url_ioc_count'', real (get_or (url_count email_data) 0)),
          (''email_ioc_count'', real (get_or (email_count email_data) 0)),
          (''domain_ioc_count'', real (get_or (domain_count email_data) 0))]"

definition extract_all_features :: "email_data \<Rightarrow> py_error + features" where
  "extract_all_features email_data =
     (let combined_text = get_or (subject email_data) [] @ '' '' @ get_or (body email_data) []
      in bind_err (extract_text_features combined_text) (\<lambda>text_features.
         bind_err (extract_url_features combined_text) (\<lambda>url_features.
         bind_err (extract_email_features email_data) (\<lambda>email_features.
         bind_err (extract_keyword_features combined_text) (\<lambda>keyword_features.
         bind_err (extract_ioc_features email_data) (\<lambda>ioc_features.
         Inr (foldl dict_update []
                [text_features, url_features, email_features, keyword_features,
                 ioc_features])))))))"

text \<open>\<^verbatim>\<open>sorted(features.keys())\<close>: strings are ordered by code point, lexicographically.\<close>

definition get_feature_names :: "email_data \<Rightarrow> py_error + string list" where
  "get_feature_names email_data =
     bind_err (extract_all_features email_data) (\<lambda>features. Inr (sort (map fst features)))"

definition get_feature_vector :: "email_data \<Rightarrow> py_error + real list" where
  "get_feature_vector email_data =
     bind_err (extract_all_features email_data) (\<lambda>features.
       let feature_names = sort (map fst features)
       in map_err (\<lambda>name. dict_lookup features name) feature_names)"

section \<open>Training on database emails (ml/phishing_ml_model.py)\<close>

text \<open>
  \<^verbatim>\<open>train_on_custom_data(emails_data, labels)\<close>. \<open>fit\<close> stands for the scikit-learn part
  (fitting the TF-IDF vectorizer and the random forest on the texts, the feature vectors
  and the labels): it gives the trained state or raises. The function returns \<^verbatim>\<open>True\<close>
  whenever it returns. The vector of an email,
  \<^verbatim>\<open>[features[key] for key in sorted(features.keys())]\<close>, is what \<open>get_feature_vector\<close>
  computes.
\<close>

definition training_text :: "email_data \<Rightarrow> string" where
  "training_text email_data =
     (if full_text email_data \<noteq> None \<and> get_or (full_text email_data) [] \<noteq> []
      then get_or (full_text email_data) []
      else get_or (subject email_data) [] @ '' '' @ get_or (body email_data) [])"

definition train_on_custom_data ::
  "(string list \<Rightarrow> real list list \<Rightarrow> nat list \<Rightarrow> py_error + 'm) \<Rightarrow> email_data list \<Rightarrow> nat list
     \<Rightarrow> py_error + bool \<times> 'm" where
  "train_on_custom_data fit emails_data labels =
     (if length emails_data \<noteq> length labels then Inl ValueError
      else if length emails_data < 4 then Inl ValueError
      else
        let phishing_count = sum_list labels;
            legitimate_count = length labels - phishing_count
        in if phishing_count < 2 \<or> legitimate_count < 2 then Inl ValueError
           else
             bind_err (map_err get_feature_vector emails_data) (\<lambda>feature_vectors.
             bind_err (fit (map training_text emails_data) feature_vectors labels) (\<lambda>m.
             Inr (True, m))))"

section \<open>Retraining (extras/auto_retrain/auto_retrain.py)\<close>

text \<open>The rows of the tables \<^verbatim>\<open>emails\<close> and \<^verbatim>\<open>iocs\<close> (database/models.py) that retraining reads.\<close>

record email_row =
  db_id :: nat
  db_upload_date :: nat
  db_is_phishing :: "bool option"
  db_sender :: "string option"
  db_subject :: "string option"
  db_body :: "string option"

record ioc_row =
  db_email_id :: nat
  db_ioc_type :: string
  db_ioc_value :: string
  db_severity :: string

record database =
  emails :: "email_row list"
  iocs :: "ioc_row list"

text \<open>A file has a content and a modification time; the file system maps paths to files.\<close>

record model_file =
  content :: "nat list"
  mtime :: nat

type_synonym filesystem = "string \<rightharpoonup> model_file"

text \<open>What a run prints, in order (the messages that mark its steps).\<close>

datatype reason =
    NoExistingModel | NewEmails nat | SufficientData nat | NotEnoughNewData nat nat

datatype event =
    CheckReason reason | RetrainingNotNeeded | ForceRequested | CannotRetrain
  | NoModelToBackup | BackedUp string | TrainingNewModel nat | TrainingFailed
  | SavingNewModel | RetrainingCompleted | ErrorDuringTraining py_error

record world =
  fs :: filesystem
  log :: "event list"

text \<open>The retrainer: \<^verbatim>\<open>self.model_dir\<close> and \<^verbatim>\<open>self.min_new_emails\<close>, and the paths made of them.\<close>

record retrainer =
  model_dir :: string
  min_new_emails :: nat

definition model_path :: "retrainer \<Rightarrow> string" where
  "model_path self = model_dir self @ ''/simple_ml_model.pkl''"

definition backup_dir :: "retrainer \<Rightarrow> string" where
  "backup_dir self = model_dir self @ ''/backups''"

text \<open>
  The retrainer holds \<^verbatim>\<open>self.db = Database(db_url)\<close>. The class \<^verbatim>\<open>Database\<close>
  (database/models.py) gives its objects the attributes \<^verbatim>\<open>engine\<close> and \<^verbatim>\<open>SessionLocal\<close> and
  the methods \<^verbatim>\<open>create_tables\<close> and \<^verbatim>\<open>get_session\<close>, and nothing else; reading any other
  attribute of such an object raises \<^verbatim>\<open>AttributeError\<close>. \<open>getattr_db name\<close> is \<^verbatim>\<open>self.db.name\<close>.
\<close>

definition database_attributes :: "string list" where
  "database_attributes = [''engine'', ''SessionLocal'', ''create_tables'', ''get_session'']"

definition getattr_db :: "string \<Rightarrow> py_error + string" where
  "getattr_db name = (if name \<in> set database_attributes then Inr name else Inl AttributeError)"

text \<open>
  \<^verbatim>\<open>check_if_retraining_needed\<close> opens with \<^verbatim>\<open>session = self.db.Session()\<close>, before its
  \<^verbatim>\<open>try\<close>; \<open>check_in_session\<close> is the \<^verbatim>\<open>try\<close> block that follows, which reads the emails
  through the session.
\<close>

definition check_in_session :: "retrainer \<Rightarrow> database \<Rightarrow> filesystem \<Rightarrow> bool \<times> reason" where
  "check_in_session self db files =
     (case files (model_path self) of
        None \<Rightarrow> (True, NoExistingModel)
      | Some f \<Rightarrow>
          let last_train_time = mtime f;
              new_emails = count_if (\<lambda>e. db_upload_date e > last_train_time) (emails db)
          in if new_emails \<ge> min_new_emails self then (True, NewEmails new_emails)
             else
               let total_emails = length (emails db)
               in if total_emails \<ge> min_new_emails self then (True, SufficientData total_emails)
                  else (False, NotEnoughNewData new_emails (min_new_emails self)))"

definition check_if_retraining_needed ::
  "retrainer \<Rightarrow> database \<Rightarrow> filesystem \<Rightarrow> py_error + bool \<times> reason" where
  "check_if_retraining_needed self db files =
     bind_err (getattr_db ''Session'') (\<lambda>session. Inr (check_in_session self db files))"

text \<open>
  \<^verbatim>\<open>backup_current_model\<close>: \<open>timestamp\<close> is \<^verbatim>\<open>datetime.now().strftime('%Y%m%d_%H%M%S')\<close>;
  \<^verbatim>\<open>shutil.copy2\<close> copies content and modification time.
\<close>

definition backup_path :: "retrainer \<Rightarrow> string \<Rightarrow> string" where
  "backup_path self timestamp = backup_dir self @ ''/model_backup_'' @ timestamp @ ''.pkl''"

definition backup_current_model :: "retrainer \<Rightarrow> string \<Rightarrow> world \<Rightarrow> string option \<times> world" where
  "backup_current_model self timestamp w =
     (case fs w (model_path self) of
        None \<Rightarrow> (None, w\<lparr>log := log w @ [NoModelToBackup]\<rparr>)
      | Some f \<Rightarrow>
          (Some (backup_path self timestamp),
           w\<lparr>fs := (fs w)(backup_path self timestamp \<mapsto> f),
             log := log w @ [BackedUp (backup_path self timestamp)]\<rparr>))"

text \<open>The dictionary \<^verbatim>\<open>ioc_counts\<close> built by the inner loop of \<^verbatim>\<open>prepare_training_data\<close>.\<close>

definition count_types :: "ioc_row list \<Rightarrow> (string \<rightharpoonup> nat)" where
  "count_types rows =
     foldl (\<lambda>ioc_counts i.
              ioc_counts(db_ioc_type i \<mapsto>
                (case ioc_counts (db_ioc_type i) of None \<Rightarrow> 0 | Some c \<Rightarrow> c) + 1))
           Map.empty rows"

text \<open>The \<^verbatim>\<open>email_data\<close> dictionary that the loop builds for one email and its indicators.\<close>

definition build_email_data :: "email_row \<Rightarrow> ioc_row list \<Rightarrow> email_data" where
  "build_email_data email rows =
     (let ioc_counts = count_types rows
      in \<lparr>sender = Some (get_or (db_sender email) []),
          recipients = None,
          subject = Some (get_or (db_subject email) []),
          headers = None,
          body = Some (get_or (db_body email) []),
          attachments = None,
          full_text = Some (get_or (db_subject email) [] @ '' '' @ get_or (db_body email) []),
          ioc_count = Some (length rows),
          has_ipv4 = Some (get_or (ioc_counts ''ipv4'') 0 > 0),
          has_url = Some (get_or (ioc_counts ''url'') 0 > 0),
          has_email = Some (get_or (ioc_counts ''email'') 0 > 0),
          has_hash = Some (get_or (ioc_counts ''md5'') 0 + get_or (ioc_counts ''sha256'') 0 > 0),
          ipv4_count = Some (get_or (ioc_counts ''ipv4'') 0),
          url_count = Some (get_or (ioc_counts ''url'') 0),
          email_count = Some (get_or (ioc_counts ''email'') 0),
          domain_count = Some (get_or (ioc_counts ''domain'') 0)\<rparr>)"

text \<open>\<^verbatim>\<open>session.query(IOC).filter_by(email_id=email.id).all()\<close>\<close>

definition iocs_of_email :: "database \<Rightarrow> email_row \<Rightarrow> ioc_row list" where
  "iocs_of_email db email = filter (\<lambda>i. db_email_id i = db_id email) (iocs db)"

text \<open>\<^verbatim>\<open>1 if email.is_phishing else 0\<close>, for every email.\<close>

definition labels_of :: "database \<Rightarrow> nat list" where
  "labels_of db = map (\<lambda>email. if db_is_phishing email = Some True then 1 else 0) (emails db)"

text \<open>
  \<^verbatim>\<open>prepare_training_data\<close> opens with \<^verbatim>\<open>session = self.db.Session()\<close> as well, before its
  \<^verbatim>\<open>try\<close>; \<open>prepare_in_session\<close> is the \<^verbatim>\<open>try\<close> block that follows. The block returns
  \<^verbatim>\<open>None\<close> in two places; the model tells them apart as the messages printed there do
  (``Insufficient data'', ``Unbalanced dataset'').
\<close>

datatype abort = InsufficientData | UnbalancedDataset

definition prepare_in_session :: "database \<Rightarrow> abort + email_data list \<times> nat list" where
  "prepare_in_session db =
     (if length (emails db) < 4 then Inl InsufficientData
      else
        let emails_data = map (\<lambda>email. build_email_data email (iocs_of_email db email)) (emails db);
            labels = labels_of db;
            phishing_count = sum_list labels;
            legitimate_count = length labels - phishing_count
        in if phishing_count < 2 \<or> legitimate_count < 2 then Inl UnbalancedDataset
           else Inr (emails_data, labels))"

definition prepare_training_data ::
  "database \<Rightarrow> py_error + (abort + email_data list \<times> nat list)" where
  "prepare_training_data db =
     bind_err (getattr_db ''Session'') (\<lambda>session. Inr (prepare_in_session db))"

text \<open>
  The \<^verbatim>\<open>try\<close> block of \<^verbatim>\<open>retrain_model\<close>: train a fresh \<^verbatim>\<open>SimplePhishingML\<close>, and save only
  after training has returned \<^verbatim>\<open>True\<close>; any exception is caught and the run returns
  \<^verbatim>\<open>False\<close>. \<open>dump\<close> is the serialisation of \<^verbatim>\<open>joblib.dump\<close>, \<open>now\<close> the time of the write.
\<close>

definition train_and_save ::
  "retrainer \<Rightarrow> (string list \<Rightarrow> real list list \<Rightarrow> nat list \<Rightarrow> py_error + 'm) \<Rightarrow> ('m \<Rightarrow> nat list) \<Rightarrow> nat
     \<Rightarrow> email_data list \<Rightarrow> nat list \<Rightarrow> world \<Rightarrow> bool \<times> world" where
  "train_and_save self fit dump now emails_data labels w =
     (case train_on_custom_data fit emails_data labels of
        Inl e \<Rightarrow> (False, w\<lparr>log := log w @ [ErrorDuringTraining e]\<rparr>)
      | Inr (success, m) \<Rightarrow>
          if \<not> success then (False, w\<lparr>log := log w @ [TrainingFailed]\<rparr>)
          else
            (True,
             w\<lparr>fs := (fs w)(model_path self \<mapsto> \<lparr>content = dump m, mtime = now\<rparr>),
               log := log w @ [SavingNewModel, RetrainingCompleted]\<rparr>))"

text \<open>
  \<^verbatim>\<open>retrain_model(force)\<close>. The check and the preparation are called outside the \<^verbatim>\<open>try\<close>
  block, so what they raise leaves \<^verbatim>\<open>retrain_model\<close>: the result is the error or the
  returned truth value, together with the world the run leaves behind.
\<close>

definition retrain_model ::
  "retrainer \<Rightarrow> (string list \<Rightarrow> real list list \<Rightarrow> nat list \<Rightarrow> py_error + 'm) \<Rightarrow> ('m \<Rightarrow> nat list)
     \<Rightarrow> string \<Rightarrow> nat \<Rightarrow> database \<Rightarrow> bool \<Rightarrow> world \<Rightarrow> (py_error + bool) \<times> world" where
  "retrain_model self fit dump timestamp now db force w =
     (let (checked, w1) =
            (if \<not> force
             then (case check_if_retraining_needed self db (fs w) of
                     Inl e \<Rightarrow> (Inl e, w)
                   | Inr (should, why) \<Rightarrow> (Inr should, w\<lparr>log := log w @ [CheckReason why]\<rparr>))
             else (Inr True, w\<lparr>log := log w @ [ForceRequested]\<rparr>))
      in case checked of
           Inl e \<Rightarrow> (Inl e, w1)
         | Inr should_retrain \<Rightarrow>
             if \<not> should_retrain then (Inr False, w1\<lparr>log := log w1 @ [RetrainingNotNeeded]\<rparr>)
             else
               (case prepare_training_data db of
                  Inl e \<Rightarrow> (Inl e, w1)
                | Inr (Inl a) \<Rightarrow> (Inr False, w1\<lparr>log := log w1 @ [CannotRetrain]\<rparr>)
                | Inr (Inr (emails_data, labels)) \<Rightarrow>
                    let w2 = snd (backup_current_model self timestamp w1);
                        w3 = w2\<lparr>log := log w2 @ [TrainingNewModel (length emails_data)]\<rparr>;
                        (trained, w4) = train_and_save self fit dump now emails_data labels w3
                    in (Inr trained, w4)))"

section \<open>Dotted quads contained in a text, in the words of the specification\<close>

text \<open>
  The specification counts the ``distinct valid dotted-quad IPv4 strings'' that a text
  contains. Read literally: a dotted quad is four decimal numbers from 0 to 255, of one
  to three digits each, separated by dots, and a text contains it when it is a substring.
  \<open>spec_contained_quads\<close> lists the distinct ones; \<open>spec_quad_tokens\<close> follows the
  narrower reading in which the string has to stand as a whitespace-separated token.
\<close>

fun split_on :: "char \<Rightarrow> string \<Rightarrow> string \<Rightarrow> string list" where
  "split_on c w [] = [w]"
| "split_on c w (x # xs) = (if x = c then w # split_on c [] xs else split_on c (w @ [x]) xs)"

definition digits_value :: "string \<Rightarrow> nat" where
  "digits_value s = foldl (\<lambda>n c. 10 * n + (of_char c - 48)) 0 s"

definition spec_octet :: "string \<Rightarrow> bool" where
  "spec_octet s = (s \<noteq> [] \<and> length s \<le> 3 \<and> list_all is_digit s \<and> digits_value s \<le> 255)"

definition spec_dotted_quad :: "string \<Rightarrow> bool" where
  "spec_dotted_quad s =
     (length (split_on (CHR ''.'') [] s) = 4 \<and> list_all spec_octet (split_on (CHR ''.'') [] s))"

definition substrings :: "string \<Rightarrow> string list" where
  "substrings s =
     concat (map (\<lambda>i. map (\<lambda>n. take n (drop i s)) [1..<length s - i + 1]) [0..<length s])"

definition spec_contained_quads :: "string \<Rightarrow> string list" where
  "spec_contained_quads text = remdups (filter spec_dotted_quad (substrings text))"

definition spec_quad_tokens :: "string \<Rightarrow> string list" where
  "spec_quad_tokens text = remdups (filter spec_dotted_quad (py_split text))"

section \<open>Example inputs\<close>

text \<open>The email of the end-to-end example of the specification (sender, subject, body).\<close>

definition c4_email :: email_data where
  "c4_email = empty_email
     \<lparr>sender := Some ''security@secure-bank.tk'',
      subject := Some ''URGENT: Action Required - Verify Your Account Immediately'',
      body := Some ''Please verify your account immediately or it will be suspended. Click here to confirm: http://secure-bank.tk/login''\<rparr>"

text \<open>A retrainer, database rows with a given label, and databases with given labels.\<close>

definition ex_self :: retrainer where
  "ex_self = \<lparr>model_dir = ''models'', min_new_emails = 10\<rparr>"

definition ex_row :: "nat \<Rightarrow> bool \<Rightarrow> email_row" where
  "ex_row n ph =
     \<lparr>db_id = n, db_upload_date = 0, db_is_phishing = Some ph, db_sender = None,
      db_subject = Some ''hello'', db_body = None\<rparr>"

definition ex_db_small :: database where
  "ex_db_small = \<lparr>emails = [ex_row 1 True, ex_row 2 True, ex_row 3 False], iocs = []\<rparr>"

definition ex_db_unbalanced :: database where
  "ex_db_unbalanced =
     \<lparr>emails = [ex_row 1 True, ex_row 2 True, ex_row 3 True, ex_row 4 False], iocs = []\<rparr>"

definition ex_db_balanced :: database where
  "ex_db_balanced =
     \<lparr>emails = [ex_row 1 True, ex_row 2 True, ex_row 3 False, ex_row 4 False], iocs = []\<rparr>"

text \<open>The email data that the loop of \<^verbatim>\<open>prepare_training_data\<close> builds from \<open>ex_db_balanced\<close>.\<close>

definition ex_eds :: "email_data list" where
  "ex_eds = map (\<lambda>email. build_email_data email []) (emails ex_db_balanced)"

text \<open>A training step that raises, a serialisation, a model file and two worlds.\<close>

definition ex_fit :: "string list \<Rightarrow> real list list \<Rightarrow> nat list \<Rightarrow> py_error + unit" where
  "ex_fit texts vectors labels = Inl ValueError"

definition ex_dump :: "unit \<Rightarrow> nat list" where
  "ex_dump m = [0]"


definition ex_world_empty :: world where
  "ex_world_empty = \<lparr>fs = Map.empty, log = []\<rparr>"


text \<open>An email row whose only stored indicator is a SHA-1 digest.\<close>

definition ex_sha1_rows :: "ioc_row list" where
  "ex_sha1_rows =
     [\<lparr>db_email_id = 1, db_ioc_type = ''sha1'',
       db_ioc_value = ''da39a3ee5e6b4b0d3255bfef95601890afd80709'', db_severity = ''high''\<rparr>]"

section \<open>Theorems\<close>

text \<open>
  C3. The risk level is Critical for a phishing verdict with confidence at least 80, High
  for a phishing verdict with confidence in [60, 80), Medium for a phishing verdict with
  confidence below 60, Low for a non-phishing verdict with confidence at least 40 and Safe
  for a non-phishing verdict with confidence below 40; the five sample points of the
  specification come out as Critical, High, Medium, Low and Safe.
\<close>

theorem get_risk_level_table:
  "(c \<ge> 80 \<longrightarrow> get_risk_level True c = ''Critical'') \<and>
   (60 \<le> c \<and> c < 80 \<longrightarrow> get_risk_level True c = ''High'') \<and>
   (c < 60 \<longrightarrow> get_risk_level True c = ''Medium'') \<and>
   (c \<ge> 40 \<longrightarrow> get_risk_level False c = ''Low'') \<and>
   (c < 40 \<longrightarrow> get_risk_level False c = ''Safe'') \<and>
   get_risk_level True 85 = ''Critical'' \<and>
   get_risk_level True 65 = ''High'' \<and>
   get_risk_level True 50 = ''Medium'' \<and>
   get_risk_level False 45 = ''Low'' \<and>
   get_risk_level False 10 = ''Safe''"
  by (simp add: get_risk_level_def)

theorem get_risk_level_table_witness:
  "(80::real) \<le> 80 \<and> get_risk_level True 80 = ''Critical'' \<and>
   (60::real) \<le> 79 \<and> (79::real) < 80 \<and> get_risk_level True 79 = ''High'' \<and>
   (59::real) < 60 \<and> get_risk_level True 59 = ''Medium'' \<and>
   (40::real) \<le> 40 \<and> get_risk_level False 40 = ''Low'' \<and>
   (39::real) < 40 \<and> get_risk_level False 39 = ''Safe''"
  using get_risk_level_table [of 80] get_risk_level_table [of 79]
    get_risk_level_table [of 59] get_risk_level_table [of 40]
    get_risk_level_table [of 39]
  by simp

lemma startswith_iff: "startswith p s \<longleftrightarrow> (\<exists>post. s = p @ post)"
  by (induction p s rule: startswith.induct) auto

lemma py_in_iff: "py_in sub s \<longleftrightarrow> (\<exists>pre post. s = pre @ sub @ post)"
proof (induction s)
  case Nil
  then show ?case by auto
next
  case (Cons c cs)
  show ?case
  proof
    assume "py_in sub (c # cs)"
    then consider "startswith sub (c # cs)" | "py_in sub cs" by auto
    then show "\<exists>pre post. c # cs = pre @ sub @ post"
    proof cases
      case 1
      then obtain post where "c # cs = sub @ post" by (auto simp: startswith_iff)
      then have "c # cs = [] @ sub @ post" by simp
      then show ?thesis by blast
    next
      case 2
      then obtain pre post where "cs = pre @ sub @ post" using Cons.IH by auto
      then have "c # cs = (c # pre) @ sub @ post" by simp
      then show ?thesis by blast
    qed
  next
    assume "\<exists>pre post. c # cs = pre @ sub @ post"
    then obtain pre post where eq: "c # cs = pre @ sub @ post" by blast
    show "py_in sub (c # cs)"
    proof (cases pre)
      case Nil
      then have "startswith sub (c # cs)" using eq by (auto simp: startswith_iff)
      then show ?thesis by simp
    next
      case (Cons a pre')
      then have "cs = pre' @ sub @ post" using eq by simp
      then have "py_in sub cs" using Cons.IH by blast
      then show ?thesis by simp
    qed
  qed
qed

text \<open>
  C5. The severity of an indicator is a function of its type and value alone: the hash
  types md5, sha1 and sha256 are high, ipv4 is medium, a url is high when its lowercased
  value contains one of the suspicious top-level domains as a substring and medium
  otherwise, a domain is high in that case and low otherwise, email is low; equal type and
  value give equal severity.
\<close>

theorem determine_severity_table:
  "determine_severity ''md5'' v = ''high'' \<and>
   determine_severity ''sha1'' v = ''high'' \<and>
   determine_severity ''sha256'' v = ''high'' \<and>
   determine_severity ''ipv4'' v = ''medium'' \<and>
   determine_severity ''url'' v =
     (if \<exists>tld \<in> set [''.tk'', ''.ml'', ''.ga'', ''.cf'', ''.gq'', ''.xyz'', ''.top''].
           \<exists>pre post. lower v = pre @ tld @ post
      then ''high'' else ''medium'') \<and>
   determine_severity ''domain'' v =
     (if \<exists>tld \<in> set [''.tk'', ''.ml'', ''.ga'', ''.cf'', ''.gq'', ''.xyz'', ''.top''].
           \<exists>pre post. lower v = pre @ tld @ post
      then ''high'' else ''low'') \<and>
   determine_severity ''email'' v = ''low'' \<and>
   (ty = ty' \<and> v = v' \<longrightarrow> determine_severity ty v = determine_severity ty' v')"
  by (simp add: determine_severity_def severity_suspicious_tlds_def py_any_def py_in_iff)

lemma tld_test:
  "(\<exists>tld \<in> set [''.tk'', ''.ml'', ''.ga'', ''.cf'', ''.gq'', ''.xyz'', ''.top''].
      \<exists>pre post. lower v = pre @ tld @ post) =
   py_any (\<lambda>tld. py_in tld (lower v)) severity_suspicious_tlds"
  by (simp add: py_any_def py_in_iff severity_suspicious_tlds_def)

lemma tld_eval:
  "py_any (\<lambda>tld. py_in tld (lower ''HTTP://EVIL.TK/a'')) severity_suspicious_tlds"
  "\<not> py_any (\<lambda>tld. py_in tld (lower ''http://example.com'')) severity_suspicious_tlds"
  "\<not> py_any (\<lambda>tld. py_in tld (lower ''example.com'')) severity_suspicious_tlds"
  by code_simp+

theorem determine_severity_table_witness:
  "determine_severity ''url'' ''HTTP://EVIL.TK/a'' = ''high'' \<and>
   determine_severity ''url'' ''http://example.com'' = ''medium'' \<and>
   determine_severity ''domain'' ''example.com'' = ''low'' \<and>
   (''url'' = ''url'' \<and> ''http://a.tk'' = ''http://a.tk'') \<and>
   determine_severity ''url'' ''http://a.tk'' = determine_severity ''url'' ''http://a.tk''"
  using determine_severity_table [of "''HTTP://EVIL.TK/a''" "''url''" "''url''" "''HTTP://EVIL.TK/a''"]
    determine_severity_table [of "''http://example.com''" "''url''" "''url''" "''http://example.com''"]
    determine_severity_table [of "''example.com''" "''url''" "''url''" "''example.com''"]
  unfolding tld_test using tld_eval by simp

text \<open>
  C1. When a model is loaded and its prediction raises, the detection step still returns
  a verdict, and it is the verdict of the rule engine: \<open>is_phishing\<close> from
  \<open>detect_phishing_simple\<close>, the confidence from \<open>calculate_confidence_score\<close>, and the
  model version recorded as \<^verbatim>\<open>rule-based-v1.0\<close>; no error leaves the step.
\<close>

theorem fallback_on_prediction_error:
  assumes "predict email_data = Inl err"
  shows "upload_email_detection True predict ml_version email_data extracted_iocs =
     Inr \<lparr>is_phishing = detect_phishing_simple email_data extracted_iocs,
          confidence_score = real (calculate_confidence_score email_data extracted_iocs),
          prediction =
            \<lparr>predicted_class =
               (if detect_phishing_simple email_data extracted_iocs then ''phishing''
                else ''legitimate''),
             probability = real (calculate_confidence_score email_data extracted_iocs) / 100,
             model_version = ''rule-based-v1.0''\<rparr>\<rparr>"
  using assms
  by (simp add: upload_email_detection_def ml_attempt_def rule_based_def Let_def)

lemma count_types_get:
  "get_or (count_types rows t) 0 = length (filter (\<lambda>i. db_ioc_type i = t) rows)"
proof (induction rows rule: rev_induct)
  case Nil
  show ?case by (simp add: count_types_def get_or_def)
next
  case (snoc x xs)
  then show ?case
    by (auto simp: count_types_def get_or_def split: option.splits)
qed

lemma backup_path_distinct: "backup_path self timestamp \<noteq> model_path self"
  by (simp add: backup_path_def model_path_def backup_dir_def)

theorem fallback_on_prediction_error_witness:
  "(\<lambda>e. Inl ValueError :: py_error + int \<times> real list) empty_email = Inl ValueError \<and>
   upload_email_detection True (\<lambda>e. Inl ValueError) ''simple-rf-v1.0'' empty_email [] =
     Inr \<lparr>is_phishing = False, confidence_score = 0,
          prediction = \<lparr>predicted_class = ''legitimate'', probability = 0,
                        model_version = ''rule-based-v1.0''\<rparr>\<rparr>"
proof -
  have a: "detect_phishing_simple empty_email [] = False" by code_simp
  have b: "calculate_confidence_score empty_email [] = 0" by code_simp
  show ?thesis
    using fallback_on_prediction_error
      [of "\<lambda>e. Inl ValueError" empty_email ValueError "''simple-rf-v1.0''" "[]"]
    by (simp add: a b)
qed

lemma train_and_save_fs:
  "train_on_custom_data fit eds ls = Inl e \<Longrightarrow>
   train_and_save self fit dump now eds ls w = (False, w\<lparr>log := log w @ [ErrorDuringTraining e]\<rparr>)"
  by (simp add: train_and_save_def)

lemma keys_dict_set:
  "map fst (dict_set d k v) = (if k \<in> set (map fst d) then map fst d else map fst d @ [k])"
  by (induction d) (auto simp: dict_set_def split: if_splits)

lemma keys_dict_update:
  "map fst (dict_update d e) =
   foldl (\<lambda>ks k. if k \<in> set ks then ks else ks @ [k]) (map fst d) (map fst e)"
proof (induction e arbitrary: d)
  case Nil
  show ?case by (simp add: dict_update_def)
next
  case (Cons x xs)
  have "dict_update d (x # xs) = dict_update (dict_set d (fst x) (snd x)) xs"
    by (simp add: dict_update_def case_prod_beta)
  then show ?case using Cons.IH [of "dict_set d (fst x) (snd x)"]
    by (simp add: keys_dict_set)
qed

lemma text_keys:
  "\<exists>f. extract_text_features text = Inr f \<and>
       map fst f = [''length'', ''num_words'', ''num_sentences'', ''avg_word_length'',
                    ''num_exclamation'', ''num_question'', ''num_uppercase'',
                    ''uppercase_ratio'']"
  by (simp add: extract_text_features_def bind_err_def np_mean_def py_div_def)

lemma url_keys:
  "\<exists>f. extract_url_features text = Inr f \<and>
       map fst f = [''num_links'', ''has_shortened_url'', ''has_suspicious_tld'',
                    ''has_ip_address'', ''num_at_symbols'', ''avg_url_length'',
                    ''max_url_length'']"
  by (simp add: extract_url_features_def bind_err_def np_mean_def py_max_def Let_def)

lemma email_keys:
  "\<exists>f. extract_email_features e = Inr f \<and>
       map fst f = [''subject_length'', ''body_length'', ''sender_has_numbers'',
                    ''num_recipients'', ''has_attachments'', ''num_attachments'']"
  by (simp add: extract_email_features_def Let_def)

lemma keyword_keys:
  "\<exists>f. extract_keyword_features text = Inr f \<and>
       map fst f = [''num_urgency_words'', ''has_urgency_words'',
                    ''num_suspicious_keywords'', ''has_suspicious_keywords'']"
  by (simp add: extract_keyword_features_def Let_def)

lemma ioc_keys:
  "\<exists>f. extract_ioc_features e = Inr f \<and>
       map fst f = [''ioc_total_count'', ''has_ipv4_ioc'', ''has_url_ioc'', ''has_email_ioc'',
                    ''has_hash_ioc'', ''ipv4_ioc_count'', ''url_ioc_count'',
                    ''email_ioc_count'', ''domain_ioc_count'']"
  by (simp add: extract_ioc_features_def)



lemma keys_eval: 
  assumes k1: "map fst f1 = [''length'', ''num_words'', ''num_sentences'', ''avg_word_length'',
                    ''num_exclamation'', ''num_question'', ''num_uppercase'',
                    ''uppercase_ratio'']" 
  and k2: "map fst f2 = [''num_links'', ''has_shortened_url'', ''has_suspicious_tld'',
                    ''has_ip_address'', ''num_at_symbols'', ''avg_url_length'',
                    ''max_url_length'']"
  and k3: "map fst f3 = [''subject_length'', ''body_length'', ''sender_has_numbers'',
                    ''num_recipients'', ''has_attachments'', ''num_attachments'']"
  and k4: "map fst f4 = [''num_urgency_words'', ''has_urgency_words'',
                    ''num_suspicious_keywords'', ''has_suspicious_keywords'']"
  and k5: "map fst f5 = [''ioc_total_count'', ''has_ipv4_ioc'', ''has_url_ioc'', ''has_email_ioc'',
                    ''has_hash_ioc'', ''ipv4_ioc_count'', ''url_ioc_count'',
                    ''email_ioc_count'', ''domain_ioc_count'']"
  shows "map fst (foldl dict_update [] [f1, f2, f3, f4, f5]) = 
     [''length'', ''num_words'', ''num_sentences'', ''avg_word_length'',
          ''num_exclamation'', ''num_question'', ''num_uppercase'', ''uppercase_ratio'',
          ''num_links'', ''has_shortened_url'', ''has_suspicious_tld'', ''has_ip_address'',
          ''num_at_symbols'', ''avg_url_length'', ''max_url_length'',
          ''subject_length'', ''body_length'', ''sender_has_numbers'', ''num_recipients'',
          ''has_attachments'', ''num_attachments'',
          ''num_urgency_words'', ''has_urgency_words'', ''num_suspicious_keywords'',
          ''has_suspicious_keywords'',
          ''ioc_total_count'', ''has_ipv4_ioc'', ''has_url_ioc'', ''has_email_ioc'',
          ''has_hash_ioc'', ''ipv4_ioc_count'', ''url_ioc_count'', ''email_ioc_count'',
          ''domain_ioc_count'']"
    by (simp add: keys_dict_update k1 k2 k3 k4 k5)
lemma r_step:
  assumes f1: "extract_text_features (get_or (subject e) [] @ '' '' @ get_or (body e) []) = Inr f1"
  and f2: "extract_url_features (get_or (subject e) [] @ '' '' @ get_or (body e) []) = Inr f2"
  and f3: "extract_email_features e = Inr f3"
  and f4: "extract_keyword_features (get_or (subject e) [] @ '' '' @ get_or (body e) []) = Inr f4"
  and f5: "extract_ioc_features e = Inr f5"
  shows "extract_all_features e = Inr (foldl dict_update [] [f1, f2, f3, f4, f5])"
  unfolding extract_all_features_def Let_def f1 f2 f3 f4 f5 bind_err_def by simp

lemma all_keys:
  "\<exists>f. extract_all_features e = Inr f \<and>
       map fst f =
         [''length'', ''num_words'', ''num_sentences'', ''avg_word_length'',
          ''num_exclamation'', ''num_question'', ''num_uppercase'', ''uppercase_ratio'',
          ''num_links'', ''has_shortened_url'', ''has_suspicious_tld'', ''has_ip_address'',
          ''num_at_symbols'', ''avg_url_length'', ''max_url_length'',
          ''subject_length'', ''body_length'', ''sender_has_numbers'', ''num_recipients'',
          ''has_attachments'', ''num_attachments'',
          ''num_urgency_words'', ''has_urgency_words'', ''num_suspicious_keywords'',
          ''has_suspicious_keywords'',
          ''ioc_total_count'', ''has_ipv4_ioc'', ''has_url_ioc'', ''has_email_ioc'',
          ''has_hash_ioc'', ''ipv4_ioc_count'', ''url_ioc_count'', ''email_ioc_count'',
          ''domain_ioc_count'']"
proof -
  let ?t = "get_or (subject e) [] @ '' '' @ get_or (body e) []"
  from text_keys [of ?t] obtain f1 where f1: "extract_text_features ?t = Inr f1"
    and k1: "map fst f1 = [''length'', ''num_words'', ''num_sentences'', ''avg_word_length'',
                    ''num_exclamation'', ''num_question'', ''num_uppercase'',
                    ''uppercase_ratio'']"
    by (elim exE conjE) (rule that)
  from url_keys [of ?t] obtain f2 where f2: "extract_url_features ?t = Inr f2"
    and k2: "map fst f2 = [''num_links'', ''has_shortened_url'', ''has_suspicious_tld'',
                    ''has_ip_address'', ''num_at_symbols'', ''avg_url_length'',
                    ''max_url_length'']"
    by (elim exE conjE) (rule that)
  from email_keys [of e] obtain f3 where f3: "extract_email_features e = Inr f3"
    and k3: "map fst f3 = [''subject_length'', ''body_length'', ''sender_has_numbers'',
                    ''num_recipients'', ''has_attachments'', ''num_attachments'']"
    by (elim exE conjE) (rule that)
  from keyword_keys [of ?t] obtain f4 where f4: "extract_keyword_features ?t = Inr f4"
    and k4: "map fst f4 = [''num_urgency_words'', ''has_urgency_words'',
                    ''num_suspicious_keywords'', ''has_suspicious_keywords'']"
    by (elim exE conjE) (rule that)
  from ioc_keys [of e] obtain f5 where f5: "extract_ioc_features e = Inr f5"
    and k5: "map fst f5 = [''ioc_total_count'', ''has_ipv4_ioc'', ''has_url_ioc'',
                    ''has_email_ioc'', ''has_hash_ioc'', ''ipv4_ioc_count'', ''url_ioc_count'',
                    ''email_ioc_count'', ''domain_ioc_count'']"
    by (elim exE conjE) (rule that)
  show ?thesis
    by (rule exI, rule conjI, rule r_step [OF f1 f2 f3 f4 f5], rule keys_eval [OF k1 k2 k3 k4 k5])
qed


lemma map_err_lookup:
  "set names \<subseteq> set (map fst f) \<Longrightarrow>
   \<exists>v. map_err (dict_lookup f) names = Inr v \<and> map Some v = map (map_of f) names"
proof (induction names)
  case Nil
  show ?case by simp
next
  case (Cons n ns)
  then obtain v where v: "map_err (dict_lookup f) ns = Inr v"
    and m: "map Some v = map (map_of f) ns" by auto
  from Cons.prems have "n \<in> fst ` set f" by simp
  then obtain y where y: "map_of f n = Some y"
    by (metis map_of_eq_None_iff not_Some_eq)
  then have "dict_lookup f n = Inr y" by (simp add: dict_lookup_def)
  then show ?case by (simp add: v m y bind_err_def)
qed

lemma map_err_total:
  "(\<And>x. \<exists>y. g x = Inr y) \<Longrightarrow> \<exists>ys. map_err g xs = Inr ys \<and> length ys = length xs"
proof (induction xs)
  case Nil
  show ?case by simp
next
  case (Cons x xs)
  then obtain ys where "map_err g xs = Inr ys" "length ys = length xs" by blast
  moreover obtain y where "g x = Inr y" using Cons.prems by blast
  ultimately show ?case by (simp add: bind_err_def)
qed

lemma get_feature_vector_total:
  "\<exists>f v. extract_all_features e = Inr f \<and> get_feature_vector e = Inr v \<and>
         map Some v = map (map_of f) (sort (map fst f))"
proof -
  from all_keys [of e] obtain f where f: "extract_all_features e = Inr f" 
    by (elim exE conjE)
  have "set (sort (map fst f)) \<subseteq> set (map fst f)" by simp
  from map_err_lookup [OF this] obtain v
    where "map_err (dict_lookup f) (sort (map fst f)) = Inr v"
      and "map Some v = map (map_of f) (sort (map fst f))" by blast
  then show ?thesis by (simp add: get_feature_vector_def f bind_err_def)
qed

lemma get_feature_vector_Inr: "\<exists>v. get_feature_vector e = Inr v"
  using get_feature_vector_total [of e] by blast

lemma train_ex_fit: "train_on_custom_data ex_fit eds ls = Inl ValueError"
proof -
  obtain vs where "map_err get_feature_vector eds = Inr vs"
    using map_err_total [of get_feature_vector eds] get_feature_vector_Inr by blast
  then show ?thesis
    by (simp add: train_on_custom_data_def Let_def bind_err_def ex_fit_def)
qed

lemma prepare_balanced: "prepare_in_session ex_db_balanced = Inr (ex_eds, [1, 1, 0, 0])"
  by (simp add: prepare_in_session_def ex_db_balanced_def ex_eds_def labels_of_def ex_row_def
      iocs_of_email_def Let_def)

lemma getattr_db_Session: "getattr_db ''Session'' = Inl AttributeError"
  by (simp add: getattr_db_def database_attributes_def)

lemma getattr_db_get_session: "getattr_db ''get_session'' = Inr ''get_session''"
  by (simp add: getattr_db_def database_attributes_def)

lemma prepare_raises: "prepare_training_data db = Inl AttributeError"
  by (simp add: prepare_training_data_def getattr_db_Session bind_err_def)

lemma check_raises: "check_if_retraining_needed self db files = Inl AttributeError"
  by (simp add: check_if_retraining_needed_def getattr_db_Session bind_err_def)

lemma retrain_raises:
  "retrain_model self fit dump timestamp now db force w =
     (Inl AttributeError, w\<lparr>log := log w @ (if force then [ForceRequested] else [])\<rparr>)"
  by (cases force) (simp_all add: retrain_model_def prepare_raises check_raises)

text \<open>
  What the functions do behind the opening statement: the guards of the preparation, the
  copy that the backup makes, and a training step that raises.
\<close>

lemma prepare_in_session_guards:
  "(length (emails db) < 4 \<longrightarrow> prepare_in_session db = Inl InsufficientData) \<and>
   (4 \<le> length (emails db) \<and>
      (sum_list (labels_of db) < 2 \<or> length (labels_of db) - sum_list (labels_of db) < 2)
      \<longrightarrow> prepare_in_session db = Inl UnbalancedDataset)"
  by (auto simp: prepare_in_session_def Let_def)

lemma backup_current_model_copies:
  "fs w (model_path self) = Some f \<Longrightarrow>
   fs (snd (backup_current_model self timestamp w)) (backup_path self timestamp) = Some f \<and>
   fs (snd (backup_current_model self timestamp w)) (model_path self) = Some f"
  using backup_path_distinct [of self timestamp]
  by (simp add: backup_current_model_def)

lemma train_and_save_keeps_model:
  "train_on_custom_data fit eds ls = Inl e \<Longrightarrow>
   fst (train_and_save self fit dump now eds ls w) = False \<and>
   fs (snd (train_and_save self fit dump now eds ls w)) = fs w"
  by (simp add: train_and_save_fs)

lemma labels_unbalanced: "labels_of ex_db_unbalanced = [1, 1, 1, 0]"
  by (simp add: labels_of_def ex_db_unbalanced_def ex_row_def)

lemma labels_balanced: "labels_of ex_db_balanced = [1, 1, 0, 0]"
  by (simp add: labels_of_def ex_db_balanced_def ex_row_def)

lemma prepare_unbalanced: "prepare_in_session ex_db_unbalanced = Inl UnbalancedDataset"
  by (simp add: prepare_in_session_def ex_db_unbalanced_def labels_of_def ex_row_def Let_def)


text \<open>
  C9. \<open>prepare_training_data\<close> raises \<^verbatim>\<open>AttributeError\<close> on every database, before it counts
  the emails, and so does \<open>check_if_retraining_needed\<close>: the labels [1,1,1,0] do not abort
  as unbalanced and the labels [1,1,0,0] do not go on to training, although the block
  behind the opening statement would answer so; the forced run over [1,1,0,0] raises and
  logs no training.
\<close>

theorem prepare_training_data_raises:
  "prepare_training_data db = Inl AttributeError \<and>
   check_if_retraining_needed self db files = Inl AttributeError \<and>
   labels_of ex_db_unbalanced = [1, 1, 1, 0] \<and>
   prepare_in_session ex_db_unbalanced = Inl UnbalancedDataset \<and>
   prepare_training_data ex_db_unbalanced = Inl AttributeError \<and>
   labels_of ex_db_balanced = [1, 1, 0, 0] \<and>
   prepare_in_session ex_db_balanced = Inr (ex_eds, [1, 1, 0, 0]) \<and>
   prepare_training_data ex_db_balanced = Inl AttributeError \<and>
   fst (retrain_model ex_self ex_fit ex_dump ''20240101_020000'' 7 ex_db_balanced True
          ex_world_empty) = Inl AttributeError \<and>
   TrainingNewModel 4 \<notin>
     set (log (snd (retrain_model ex_self ex_fit ex_dump ''20240101_020000'' 7 ex_db_balanced
                      True ex_world_empty)))"
  unfolding retrain_raises prepare_raises check_raises labels_unbalanced labels_balanced
    prepare_unbalanced prepare_balanced
  by (simp add: ex_world_empty_def)

text \<open>
  C10. The \<open>has_hash\<close> flag of a training record is true exactly when the email has an
  md5 or a sha256 indicator: for an email whose hash indicators are all of type sha1 it
  is false, although sha1 is one of the patterns of the extractor (with severity high).
  The records that the loop of \<open>prepare_training_data\<close> returns are built this way.
\<close>

theorem has_hash_ignores_sha1:
  "has_hash (build_email_data email rows) =
     Some (\<exists>i \<in> set rows. db_ioc_type i = ''md5'' \<or> db_ioc_type i = ''sha256'') \<and>
   ((\<forall>i \<in> set rows. db_ioc_type i \<in> {''md5'', ''sha1'', ''sha256''} \<longrightarrow> db_ioc_type i = ''sha1'')
      \<longrightarrow> has_hash (build_email_data email rows) = Some False) \<and>
   (prepare_in_session db = Inr (emails_data, labels) \<longrightarrow>
      emails_data =
        map (\<lambda>email. build_email_data email (iocs_of_email db email)) (emails db)) \<and>
   ''sha1'' \<in> set (map fst patterns) \<and> determine_severity ''sha1'' v = ''high''"
proof -
  have h: "has_hash (build_email_data email rows) =
     Some (\<exists>i \<in> set rows. db_ioc_type i = ''md5'' \<or> db_ioc_type i = ''sha256'')"
    by (auto simp: build_email_data_def Let_def count_types_get filter_empty_conv)
  have p: "prepare_in_session db = Inr (emails_data, labels) \<longrightarrow>
      emails_data =
        map (\<lambda>email. build_email_data email (iocs_of_email db email)) (emails db)"
    by (auto simp: prepare_in_session_def Let_def split: if_splits)
  have q: "''sha1'' \<in> set (map fst patterns)" by (simp add: patterns_def)
  have r: "determine_severity ''sha1'' v = ''high''" by (simp add: determine_severity_def)
  show ?thesis unfolding h using p q r by auto
qed

theorem has_hash_ignores_sha1_witness:
  "map db_ioc_type ex_sha1_rows = [''sha1''] \<and>
   length (filter (\<lambda>i. db_ioc_type i = ''sha1'') ex_sha1_rows) = 1 \<and>
   has_hash (build_email_data (ex_row 1 True) ex_sha1_rows) = Some False \<and>
   prepare_in_session ex_db_balanced = Inr (ex_eds, [1, 1, 0, 0]) \<and>
   ex_eds =
     map (\<lambda>email. build_email_data email (iocs_of_email ex_db_balanced email))
       (emails ex_db_balanced)"
proof -
  have a: "\<forall>i \<in> set ex_sha1_rows. db_ioc_type i \<in> {''md5'', ''sha1'', ''sha256''} \<longrightarrow> db_ioc_type i = ''sha1''"
    by (simp add: ex_sha1_rows_def)
  have b: "length (filter (\<lambda>i. db_ioc_type i = ''sha1'') ex_sha1_rows) = 1"
    by (simp add: ex_sha1_rows_def)
  show ?thesis
    using has_hash_ignores_sha1 [of "ex_row 1 True" ex_sha1_rows ex_db_balanced ex_eds "[1, 1, 0, 0]"]
      a b prepare_balanced
    by (simp add: ex_sha1_rows_def)
qed


lemma sorted_feature_names:
  "sort [''length'', ''num_words'', ''num_sentences'', ''avg_word_length'',
          ''num_exclamation'', ''num_question'', ''num_uppercase'', ''uppercase_ratio'',
          ''num_links'', ''has_shortened_url'', ''has_suspicious_tld'', ''has_ip_address'',
          ''num_at_symbols'', ''avg_url_length'', ''max_url_length'',
          ''subject_length'', ''body_length'', ''sender_has_numbers'', ''num_recipients'',
          ''has_attachments'', ''num_attachments'',
          ''num_urgency_words'', ''has_urgency_words'', ''num_suspicious_keywords'',
          ''has_suspicious_keywords'',
          ''ioc_total_count'', ''has_ipv4_ioc'', ''has_url_ioc'', ''has_email_ioc'',
          ''has_hash_ioc'', ''ipv4_ioc_count'', ''url_ioc_count'', ''email_ioc_count'',
          ''domain_ioc_count''] =
   [''avg_url_length'', ''avg_word_length'', ''body_length'', ''domain_ioc_count'',
    ''email_ioc_count'', ''has_attachments'', ''has_email_ioc'', ''has_hash_ioc'',
    ''has_ip_address'', ''has_ipv4_ioc'', ''has_shortened_url'', ''has_suspicious_keywords'',
    ''has_suspicious_tld'', ''has_urgency_words'', ''has_url_ioc'', ''ioc_total_count'',
    ''ipv4_ioc_count'', ''length'', ''max_url_length'', ''num_at_symbols'',
    ''num_attachments'', ''num_exclamation'', ''num_links'', ''num_question'',
    ''num_recipients'', ''num_sentences'', ''num_suspicious_keywords'', ''num_uppercase'',
    ''num_urgency_words'', ''num_words'', ''sender_has_numbers'', ''subject_length'',
    ''uppercase_ratio'', ''url_ioc_count'']"
  by code_simp

lemma strict_lex:
  "sorted (xs :: string list) \<Longrightarrow> distinct xs \<Longrightarrow>
   sorted_wrt (\<lambda>a b. (a, b) \<in> lexord {(c, d). (of_char c :: nat) < of_char d}) xs"
proof -
  assume "sorted xs" "distinct xs"
  then have "sorted_wrt (<) xs" by (simp add: strict_sorted_iff)
  moreover have "\<And>a b :: string. a < b \<Longrightarrow> (a, b) \<in> lexord {(c, d). (of_char c :: nat) < of_char d}"
    by (simp add: list_less_def less_char_def)
  ultimately show ?thesis by (rule sorted_wrt_mono_rel [rotated]) auto
qed

lemma empty_text: "extract_text_features [] =
     Inr [(''length'', 0), (''num_words'', 0), (''num_sentences'', 0),
          (''avg_word_length'', 0), (''num_exclamation'', 0), (''num_question'', 0),
          (''num_uppercase'', 0), (''uppercase_ratio'', 0)]"
  by (simp add: extract_text_features_def bind_err_def py_split_def count_if_def py_count.simps)

lemma space_facts:
  "py_split '' '' = []" "findall True url_pattern '' '' = []"
  "py_count ''.'' '' '' = 0" "py_count ''!'' '' '' = 0" "py_count ''?'' '' '' = 0"
  "count_if is_upper '' '' = 0" "lower '' '' = '' ''"
  by code_simp+

lemma space_kw:
  "sum_list (map (\<lambda>word. py_count word '' '') fe_urgency_words) = 0"
  "py_any (\<lambda>word. py_in word '' '') fe_urgency_words = False"
  "sum_list (map (\<lambda>keyword. py_count keyword '' '') fe_suspicious_keywords) = 0"
  "py_any (\<lambda>keyword. py_in keyword '' '') fe_suspicious_keywords = False"
  "re_search False (Cls [d09]) [] = False"
  by code_simp+

lemma empty_groups:
  "extract_text_features '' '' =
     Inr [(''length'', 1), (''num_words'', 0), (''num_sentences'', 0),
          (''avg_word_length'', 0), (''num_exclamation'', 0), (''num_question'', 0),
          (''num_uppercase'', 0), (''uppercase_ratio'', 0)]"
  "extract_url_features '' '' =
     Inr [(''num_links'', 0), (''has_shortened_url'', 0), (''has_suspicious_tld'', 0),
          (''has_ip_address'', 0), (''num_at_symbols'', 0), (''avg_url_length'', 0),
          (''max_url_length'', 0)]"
  "extract_email_features empty_email =
     Inr [(''subject_length'', 0), (''body_length'', 0), (''sender_has_numbers'', 0),
          (''num_recipients'', 0), (''has_attachments'', 0), (''num_attachments'', 0)]"
  "extract_ioc_features empty_email =
     Inr [(''ioc_total_count'', 0), (''has_ipv4_ioc'', 0), (''has_url_ioc'', 0),
          (''has_email_ioc'', 0), (''has_hash_ioc'', 0), (''ipv4_ioc_count'', 0),
          (''url_ioc_count'', 0), (''email_ioc_count'', 0), (''domain_ioc_count'', 0)]"
  by (simp_all add: extract_text_features_def extract_url_features_def
     extract_email_features_def extract_keyword_features_def extract_ioc_features_def
     empty_email_def get_or_def bind_err_def Let_def space_facts space_kw b2r_def py_div_def)

lemma empty_keywords:
  "extract_keyword_features '' '' =
     Inr [(''num_urgency_words'', 0), (''has_urgency_words'', 0),
          (''num_suspicious_keywords'', 0), (''has_suspicious_keywords'', 0)]"
  unfolding extract_keyword_features_def Let_def space_facts space_kw
  by (simp add: b2r_def)

lemma empty_all:
  "extract_all_features empty_email =
     Inr [(''length'', 1), (''num_words'', 0), (''num_sentences'', 0),
          (''avg_word_length'', 0), (''num_exclamation'', 0), (''num_question'', 0),
          (''num_uppercase'', 0), (''uppercase_ratio'', 0),
          (''num_links'', 0), (''has_shortened_url'', 0), (''has_suspicious_tld'', 0),
          (''has_ip_address'', 0), (''num_at_symbols'', 0), (''avg_url_length'', 0),
          (''max_url_length'', 0),
          (''subject_length'', 0), (''body_length'', 0), (''sender_has_numbers'', 0),
          (''num_recipients'', 0), (''has_attachments'', 0), (''num_attachments'', 0),
          (''num_urgency_words'', 0), (''has_urgency_words'', 0),
          (''num_suspicious_keywords'', 0), (''has_suspicious_keywords'', 0),
          (''ioc_total_count'', 0), (''has_ipv4_ioc'', 0), (''has_url_ioc'', 0),
          (''has_email_ioc'', 0), (''has_hash_ioc'', 0), (''ipv4_ioc_count'', 0),
          (''url_ioc_count'', 0), (''email_ioc_count'', 0), (''domain_ioc_count'', 0)]"
proof -
  have t: "get_or (subject empty_email) [] @ '' '' @ get_or (body empty_email) [] = '' ''"
    by (simp add: empty_email_def get_or_def)
  show ?thesis
    unfolding extract_all_features_def Let_def t empty_groups empty_keywords bind_err_def
    by (simp add: dict_update_def dict_set_def)
qed


lemma features_and_vector:
  "\<exists>f v. extract_all_features e = Inr f \<and>
         map fst f = [''length'', ''num_words'', ''num_sentences'', ''avg_word_length'',
          ''num_exclamation'', ''num_question'', ''num_uppercase'', ''uppercase_ratio'',
          ''num_links'', ''has_shortened_url'', ''has_suspicious_tld'', ''has_ip_address'',
          ''num_at_symbols'', ''avg_url_length'', ''max_url_length'',
          ''subject_length'', ''body_length'', ''sender_has_numbers'', ''num_recipients'',
          ''has_attachments'', ''num_attachments'',
          ''num_urgency_words'', ''has_urgency_words'', ''num_suspicious_keywords'',
          ''has_suspicious_keywords'',
          ''ioc_total_count'', ''has_ipv4_ioc'', ''has_url_ioc'', ''has_email_ioc'',
          ''has_hash_ioc'', ''ipv4_ioc_count'', ''url_ioc_count'', ''email_ioc_count'',
          ''domain_ioc_count''] \<and>
         get_feature_names e = Inr [''avg_url_length'', ''avg_word_length'', ''body_length'', ''domain_ioc_count'',
    ''email_ioc_count'', ''has_attachments'', ''has_email_ioc'', ''has_hash_ioc'',
    ''has_ip_address'', ''has_ipv4_ioc'', ''has_shortened_url'', ''has_suspicious_keywords'',
    ''has_suspicious_tld'', ''has_urgency_words'', ''has_url_ioc'', ''ioc_total_count'',
    ''ipv4_ioc_count'', ''length'', ''max_url_length'', ''num_at_symbols'',
    ''num_attachments'', ''num_exclamation'', ''num_links'', ''num_question'',
    ''num_recipients'', ''num_sentences'', ''num_suspicious_keywords'', ''num_uppercase'',
    ''num_urgency_words'', ''num_words'', ''sender_has_numbers'', ''subject_length'',
    ''uppercase_ratio'', ''url_ioc_count''] \<and>
         get_feature_vector e = Inr v \<and>
         map Some v = map (map_of f) [''avg_url_length'', ''avg_word_length'', ''body_length'', ''domain_ioc_count'',
    ''email_ioc_count'', ''has_attachments'', ''has_email_ioc'', ''has_hash_ioc'',
    ''has_ip_address'', ''has_ipv4_ioc'', ''has_shortened_url'', ''has_suspicious_keywords'',
    ''has_suspicious_tld'', ''has_urgency_words'', ''has_url_ioc'', ''ioc_total_count'',
    ''ipv4_ioc_count'', ''length'', ''max_url_length'', ''num_at_symbols'',
    ''num_attachments'', ''num_exclamation'', ''num_links'', ''num_question'',
    ''num_recipients'', ''num_sentences'', ''num_suspicious_keywords'', ''num_uppercase'',
    ''num_urgency_words'', ''num_words'', ''sender_has_numbers'', ''subject_length'',
    ''uppercase_ratio'', ''url_ioc_count'']"
proof -
  from get_feature_vector_total [of e] obtain f v
    where f: "extract_all_features e = Inr f" and v: "get_feature_vector e = Inr v"
      and m: "map Some v = map (map_of f) (sort (map fst f))"
    by (elim exE conjE)
  from all_keys [of e] have k: "map fst f = [''length'', ''num_words'', ''num_sentences'', ''avg_word_length'',
          ''num_exclamation'', ''num_question'', ''num_uppercase'', ''uppercase_ratio'',
          ''num_links'', ''has_shortened_url'', ''has_suspicious_tld'', ''has_ip_address'',
          ''num_at_symbols'', ''avg_url_length'', ''max_url_length'',
          ''subject_length'', ''body_length'', ''sender_has_numbers'', ''num_recipients'',
          ''has_attachments'', ''num_attachments'',
          ''num_urgency_words'', ''has_urgency_words'', ''num_suspicious_keywords'',
          ''has_suspicious_keywords'',
          ''ioc_total_count'', ''has_ipv4_ioc'', ''has_url_ioc'', ''has_email_ioc'',
          ''has_hash_ioc'', ''ipv4_ioc_count'', ''url_ioc_count'', ''email_ioc_count'',
          ''domain_ioc_count'']"
    unfolding f by (elim exE conjE) (simp only: sum.inject)
  have n: "get_feature_names e = Inr [''avg_url_length'', ''avg_word_length'', ''body_length'', ''domain_ioc_count'',
    ''email_ioc_count'', ''has_attachments'', ''has_email_ioc'', ''has_hash_ioc'',
    ''has_ip_address'', ''has_ipv4_ioc'', ''has_shortened_url'', ''has_suspicious_keywords'',
    ''has_suspicious_tld'', ''has_urgency_words'', ''has_url_ioc'', ''ioc_total_count'',
    ''ipv4_ioc_count'', ''length'', ''max_url_length'', ''num_at_symbols'',
    ''num_attachments'', ''num_exclamation'', ''num_links'', ''num_question'',
    ''num_recipients'', ''num_sentences'', ''num_suspicious_keywords'', ''num_uppercase'',
    ''num_urgency_words'', ''num_words'', ''sender_has_numbers'', ''subject_length'',
    ''uppercase_ratio'', ''url_ioc_count'']"
    unfolding get_feature_names_def f bind_err_def sum.case k sorted_feature_names ..
  show ?thesis
    apply (rule exI [of _ f], rule exI [of _ v])
    apply (intro conjI)
        apply (rule f)
       apply (rule k)
      apply (rule n)
     apply (rule v)
    apply (rule m [unfolded k sorted_feature_names])
    done
qed

lemma names_facts:
  "sorted_wrt (\<lambda>a b. (a, b) \<in> lexord {(c, d). (of_char c :: nat) < of_char d}) [''avg_url_length'', ''avg_word_length'', ''body_length'', ''domain_ioc_count'',
    ''email_ioc_count'', ''has_attachments'', ''has_email_ioc'', ''has_hash_ioc'',
    ''has_ip_address'', ''has_ipv4_ioc'', ''has_shortened_url'', ''has_suspicious_keywords'',
    ''has_suspicious_tld'', ''has_urgency_words'', ''has_url_ioc'', ''ioc_total_count'',
    ''ipv4_ioc_count'', ''length'', ''max_url_length'', ''num_at_symbols'',
    ''num_attachments'', ''num_exclamation'', ''num_links'', ''num_question'',
    ''num_recipients'', ''num_sentences'', ''num_suspicious_keywords'', ''num_uppercase'',
    ''num_urgency_words'', ''num_words'', ''sender_has_numbers'', ''subject_length'',
    ''uppercase_ratio'', ''url_ioc_count'']"
  "set [''avg_url_length'', ''avg_word_length'', ''body_length'', ''domain_ioc_count'',
    ''email_ioc_count'', ''has_attachments'', ''has_email_ioc'', ''has_hash_ioc'',
    ''has_ip_address'', ''has_ipv4_ioc'', ''has_shortened_url'', ''has_suspicious_keywords'',
    ''has_suspicious_tld'', ''has_urgency_words'', ''has_url_ioc'', ''ioc_total_count'',
    ''ipv4_ioc_count'', ''length'', ''max_url_length'', ''num_at_symbols'',
    ''num_attachments'', ''num_exclamation'', ''num_links'', ''num_question'',
    ''num_recipients'', ''num_sentences'', ''num_suspicious_keywords'', ''num_uppercase'',
    ''num_urgency_words'', ''num_words'', ''sender_has_numbers'', ''subject_length'',
    ''uppercase_ratio'', ''url_ioc_count''] = set [''length'', ''num_words'', ''num_sentences'', ''avg_word_length'',
          ''num_exclamation'', ''num_question'', ''num_uppercase'', ''uppercase_ratio'',
          ''num_links'', ''has_shortened_url'', ''has_suspicious_tld'', ''has_ip_address'',
          ''num_at_symbols'', ''avg_url_length'', ''max_url_length'',
          ''subject_length'', ''body_length'', ''sender_has_numbers'', ''num_recipients'',
          ''has_attachments'', ''num_attachments'',
          ''num_urgency_words'', ''has_urgency_words'', ''num_suspicious_keywords'',
          ''has_suspicious_keywords'',
          ''ioc_total_count'', ''has_ipv4_ioc'', ''has_url_ioc'', ''has_email_ioc'',
          ''has_hash_ioc'', ''ipv4_ioc_count'', ''url_ioc_count'', ''email_ioc_count'',
          ''domain_ioc_count'']"
  "length [''length'', ''num_words'', ''num_sentences'', ''avg_word_length'',
          ''num_exclamation'', ''num_question'', ''num_uppercase'', ''uppercase_ratio'',
          ''num_links'', ''has_shortened_url'', ''has_suspicious_tld'', ''has_ip_address'',
          ''num_at_symbols'', ''avg_url_length'', ''max_url_length'',
          ''subject_length'', ''body_length'', ''sender_has_numbers'', ''num_recipients'',
          ''has_attachments'', ''num_attachments'',
          ''num_urgency_words'', ''has_urgency_words'', ''num_suspicious_keywords'',
          ''has_suspicious_keywords'',
          ''ioc_total_count'', ''has_ipv4_ioc'', ''has_url_ioc'', ''has_email_ioc'',
          ''has_hash_ioc'', ''ipv4_ioc_count'', ''url_ioc_count'', ''email_ioc_count'',
          ''domain_ioc_count''] = 34"
proof -
  have d: "distinct [''length'', ''num_words'', ''num_sentences'', ''avg_word_length'',
          ''num_exclamation'', ''num_question'', ''num_uppercase'', ''uppercase_ratio'',
          ''num_links'', ''has_shortened_url'', ''has_suspicious_tld'', ''has_ip_address'',
          ''num_at_symbols'', ''avg_url_length'', ''max_url_length'',
          ''subject_length'', ''body_length'', ''sender_has_numbers'', ''num_recipients'',
          ''has_attachments'', ''num_attachments'',
          ''num_urgency_words'', ''has_urgency_words'', ''num_suspicious_keywords'',
          ''has_suspicious_keywords'',
          ''ioc_total_count'', ''has_ipv4_ioc'', ''has_url_ioc'', ''has_email_ioc'',
          ''has_hash_ioc'', ''ipv4_ioc_count'', ''url_ioc_count'', ''email_ioc_count'',
          ''domain_ioc_count'']" by code_simp
  have s: "sorted (sort [''length'', ''num_words'', ''num_sentences'', ''avg_word_length'',
          ''num_exclamation'', ''num_question'', ''num_uppercase'', ''uppercase_ratio'',
          ''num_links'', ''has_shortened_url'', ''has_suspicious_tld'', ''has_ip_address'',
          ''num_at_symbols'', ''avg_url_length'', ''max_url_length'',
          ''subject_length'', ''body_length'', ''sender_has_numbers'', ''num_recipients'',
          ''has_attachments'', ''num_attachments'',
          ''num_urgency_words'', ''has_urgency_words'', ''num_suspicious_keywords'',
          ''has_suspicious_keywords'',
          ''ioc_total_count'', ''has_ipv4_ioc'', ''has_url_ioc'', ''has_email_ioc'',
          ''has_hash_ioc'', ''ipv4_ioc_count'', ''url_ioc_count'', ''email_ioc_count'',
          ''domain_ioc_count''])" by (rule sorted_sort)
  have "distinct (sort [''length'', ''num_words'', ''num_sentences'', ''avg_word_length'',
          ''num_exclamation'', ''num_question'', ''num_uppercase'', ''uppercase_ratio'',
          ''num_links'', ''has_shortened_url'', ''has_suspicious_tld'', ''has_ip_address'',
          ''num_at_symbols'', ''avg_url_length'', ''max_url_length'',
          ''subject_length'', ''body_length'', ''sender_has_numbers'', ''num_recipients'',
          ''has_attachments'', ''num_attachments'',
          ''num_urgency_words'', ''has_urgency_words'', ''num_suspicious_keywords'',
          ''has_suspicious_keywords'',
          ''ioc_total_count'', ''has_ipv4_ioc'', ''has_url_ioc'', ''has_email_ioc'',
          ''has_hash_ioc'', ''ipv4_ioc_count'', ''url_ioc_count'', ''email_ioc_count'',
          ''domain_ioc_count''])" using d by (simp only: distinct_sort)
  with s show "sorted_wrt (\<lambda>a b. (a, b) \<in> lexord {(c, d). (of_char c :: nat) < of_char d}) [''avg_url_length'', ''avg_word_length'', ''body_length'', ''domain_ioc_count'',
    ''email_ioc_count'', ''has_attachments'', ''has_email_ioc'', ''has_hash_ioc'',
    ''has_ip_address'', ''has_ipv4_ioc'', ''has_shortened_url'', ''has_suspicious_keywords'',
    ''has_suspicious_tld'', ''has_urgency_words'', ''has_url_ioc'', ''ioc_total_count'',
    ''ipv4_ioc_count'', ''length'', ''max_url_length'', ''num_at_symbols'',
    ''num_attachments'', ''num_exclamation'', ''num_links'', ''num_question'',
    ''num_recipients'', ''num_sentences'', ''num_suspicious_keywords'', ''num_uppercase'',
    ''num_urgency_words'', ''num_words'', ''sender_has_numbers'', ''subject_length'',
    ''uppercase_ratio'', ''url_ioc_count'']"
    unfolding sorted_feature_names by (rule strict_lex)
  have "set (sort [''length'', ''num_words'', ''num_sentences'', ''avg_word_length'',
          ''num_exclamation'', ''num_question'', ''num_uppercase'', ''uppercase_ratio'',
          ''num_links'', ''has_shortened_url'', ''has_suspicious_tld'', ''has_ip_address'',
          ''num_at_symbols'', ''avg_url_length'', ''max_url_length'',
          ''subject_length'', ''body_length'', ''sender_has_numbers'', ''num_recipients'',
          ''has_attachments'', ''num_attachments'',
          ''num_urgency_words'', ''has_urgency_words'', ''num_suspicious_keywords'',
          ''has_suspicious_keywords'',
          ''ioc_total_count'', ''has_ipv4_ioc'', ''has_url_ioc'', ''has_email_ioc'',
          ''has_hash_ioc'', ''ipv4_ioc_count'', ''url_ioc_count'', ''email_ioc_count'',
          ''domain_ioc_count'']) = set [''length'', ''num_words'', ''num_sentences'', ''avg_word_length'',
          ''num_exclamation'', ''num_question'', ''num_uppercase'', ''uppercase_ratio'',
          ''num_links'', ''has_shortened_url'', ''has_suspicious_tld'', ''has_ip_address'',
          ''num_at_symbols'', ''avg_url_length'', ''max_url_length'',
          ''subject_length'', ''body_length'', ''sender_has_numbers'', ''num_recipients'',
          ''has_attachments'', ''num_attachments'',
          ''num_urgency_words'', ''has_urgency_words'', ''num_suspicious_keywords'',
          ''has_suspicious_keywords'',
          ''ioc_total_count'', ''has_ipv4_ioc'', ''has_url_ioc'', ''has_email_ioc'',
          ''has_hash_ioc'', ''ipv4_ioc_count'', ''url_ioc_count'', ''email_ioc_count'',
          ''domain_ioc_count'']" by (rule set_sort)
  then show "set [''avg_url_length'', ''avg_word_length'', ''body_length'', ''domain_ioc_count'',
    ''email_ioc_count'', ''has_attachments'', ''has_email_ioc'', ''has_hash_ioc'',
    ''has_ip_address'', ''has_ipv4_ioc'', ''has_shortened_url'', ''has_suspicious_keywords'',
    ''has_suspicious_tld'', ''has_urgency_words'', ''has_url_ioc'', ''ioc_total_count'',
    ''ipv4_ioc_count'', ''length'', ''max_url_length'', ''num_at_symbols'',
    ''num_attachments'', ''num_exclamation'', ''num_links'', ''num_question'',
    ''num_recipients'', ''num_sentences'', ''num_suspicious_keywords'', ''num_uppercase'',
    ''num_urgency_words'', ''num_words'', ''sender_has_numbers'', ''subject_length'',
    ''uppercase_ratio'', ''url_ioc_count''] = set [''length'', ''num_words'', ''num_sentences'', ''avg_word_length'',
          ''num_exclamation'', ''num_question'', ''num_uppercase'', ''uppercase_ratio'',
          ''num_links'', ''has_shortened_url'', ''has_suspicious_tld'', ''has_ip_address'',
          ''num_at_symbols'', ''avg_url_length'', ''max_url_length'',
          ''subject_length'', ''body_length'', ''sender_has_numbers'', ''num_recipients'',
          ''has_attachments'', ''num_attachments'',
          ''num_urgency_words'', ''has_urgency_words'', ''num_suspicious_keywords'',
          ''has_suspicious_keywords'',
          ''ioc_total_count'', ''has_ipv4_ioc'', ''has_url_ioc'', ''has_email_ioc'',
          ''has_hash_ioc'', ''ipv4_ioc_count'', ''url_ioc_count'', ''email_ioc_count'',
          ''domain_ioc_count'']" unfolding sorted_feature_names .
  show "length [''length'', ''num_words'', ''num_sentences'', ''avg_word_length'',
          ''num_exclamation'', ''num_question'', ''num_uppercase'', ''uppercase_ratio'',
          ''num_links'', ''has_shortened_url'', ''has_suspicious_tld'', ''has_ip_address'',
          ''num_at_symbols'', ''avg_url_length'', ''max_url_length'',
          ''subject_length'', ''body_length'', ''sender_has_numbers'', ''num_recipients'',
          ''has_attachments'', ''num_attachments'',
          ''num_urgency_words'', ''has_urgency_words'', ''num_suspicious_keywords'',
          ''has_suspicious_keywords'',
          ''ioc_total_count'', ''has_ipv4_ioc'', ''has_url_ioc'', ''has_email_ioc'',
          ''has_hash_ioc'', ''ipv4_ioc_count'', ''url_ioc_count'', ''email_ioc_count'',
          ''domain_ioc_count''] = 34" by simp
qed

text \<open>
  C7. For any two emails, \<open>extract_all_features\<close> gives feature mappings with the same
  34 names (in the same insertion order), and \<open>get_feature_names\<close> and
  \<open>get_feature_vector\<close> order these names in the same strictly increasing lexicographic
  order of their characters' codes: the two vectors list the values of the same names at
  the same places.
\<close>

theorem feature_schema_stable:
  "\<exists>names f1 f2 v1 v2.
     names = [''avg_url_length'', ''avg_word_length'', ''body_length'', ''domain_ioc_count'',
    ''email_ioc_count'', ''has_attachments'', ''has_email_ioc'', ''has_hash_ioc'',
    ''has_ip_address'', ''has_ipv4_ioc'', ''has_shortened_url'', ''has_suspicious_keywords'',
    ''has_suspicious_tld'', ''has_urgency_words'', ''has_url_ioc'', ''ioc_total_count'',
    ''ipv4_ioc_count'', ''length'', ''max_url_length'', ''num_at_symbols'',
    ''num_attachments'', ''num_exclamation'', ''num_links'', ''num_question'',
    ''num_recipients'', ''num_sentences'', ''num_suspicious_keywords'', ''num_uppercase'',
    ''num_urgency_words'', ''num_words'', ''sender_has_numbers'', ''subject_length'',
    ''uppercase_ratio'', ''url_ioc_count''] \<and>
     extract_all_features e1 = Inr f1 \<and> extract_all_features e2 = Inr f2 \<and>
     map fst f1 = map fst f2 \<and> length f1 = 34 \<and> set names = set (map fst f1) \<and>
     get_feature_names e1 = Inr names \<and> get_feature_names e2 = Inr names \<and>
     sorted_wrt (\<lambda>a b. (a, b) \<in> lexord {(c, d). (of_char c :: nat) < of_char d}) names \<and>
     get_feature_vector e1 = Inr v1 \<and> get_feature_vector e2 = Inr v2 \<and>
     map Some v1 = map (map_of f1) names \<and> map Some v2 = map (map_of f2) names"
proof -
  from features_and_vector [of e1] obtain f1 v1
    where a1: "extract_all_features e1 = Inr f1" and k1: "map fst f1 = [''length'', ''num_words'', ''num_sentences'', ''avg_word_length'',
          ''num_exclamation'', ''num_question'', ''num_uppercase'', ''uppercase_ratio'',
          ''num_links'', ''has_shortened_url'', ''has_suspicious_tld'', ''has_ip_address'',
          ''num_at_symbols'', ''avg_url_length'', ''max_url_length'',
          ''subject_length'', ''body_length'', ''sender_has_numbers'', ''num_recipients'',
          ''has_attachments'', ''num_attachments'',
          ''num_urgency_words'', ''has_urgency_words'', ''num_suspicious_keywords'',
          ''has_suspicious_keywords'',
          ''ioc_total_count'', ''has_ipv4_ioc'', ''has_url_ioc'', ''has_email_ioc'',
          ''has_hash_ioc'', ''ipv4_ioc_count'', ''url_ioc_count'', ''email_ioc_count'',
          ''domain_ioc_count'']"
      and n1: "get_feature_names e1 = Inr [''avg_url_length'', ''avg_word_length'', ''body_length'', ''domain_ioc_count'',
    ''email_ioc_count'', ''has_attachments'', ''has_email_ioc'', ''has_hash_ioc'',
    ''has_ip_address'', ''has_ipv4_ioc'', ''has_shortened_url'', ''has_suspicious_keywords'',
    ''has_suspicious_tld'', ''has_urgency_words'', ''has_url_ioc'', ''ioc_total_count'',
    ''ipv4_ioc_count'', ''length'', ''max_url_length'', ''num_at_symbols'',
    ''num_attachments'', ''num_exclamation'', ''num_links'', ''num_question'',
    ''num_recipients'', ''num_sentences'', ''num_suspicious_keywords'', ''num_uppercase'',
    ''num_urgency_words'', ''num_words'', ''sender_has_numbers'', ''subject_length'',
    ''uppercase_ratio'', ''url_ioc_count'']" and g1: "get_feature_vector e1 = Inr v1"
      and m1: "map Some v1 = map (map_of f1) [''avg_url_length'', ''avg_word_length'', ''body_length'', ''domain_ioc_count'',
    ''email_ioc_count'', ''has_attachments'', ''has_email_ioc'', ''has_hash_ioc'',
    ''has_ip_address'', ''has_ipv4_ioc'', ''has_shortened_url'', ''has_suspicious_keywords'',
    ''has_suspicious_tld'', ''has_urgency_words'', ''has_url_ioc'', ''ioc_total_count'',
    ''ipv4_ioc_count'', ''length'', ''max_url_length'', ''num_at_symbols'',
    ''num_attachments'', ''num_exclamation'', ''num_links'', ''num_question'',
    ''num_recipients'', ''num_sentences'', ''num_suspicious_keywords'', ''num_uppercase'',
    ''num_urgency_words'', ''num_words'', ''sender_has_numbers'', ''subject_length'',
    ''uppercase_ratio'', ''url_ioc_count'']"
    by (elim exE conjE)
  from features_and_vector [of e2] obtain f2 v2
    where a2: "extract_all_features e2 = Inr f2" and k2: "map fst f2 = [''length'', ''num_words'', ''num_sentences'', ''avg_word_length'',
          ''num_exclamation'', ''num_question'', ''num_uppercase'', ''uppercase_ratio'',
          ''num_links'', ''has_shortened_url'', ''has_suspicious_tld'', ''has_ip_address'',
          ''num_at_symbols'', ''avg_url_length'', ''max_url_length'',
          ''subject_length'', ''body_length'', ''sender_has_numbers'', ''num_recipients'',
          ''has_attachments'', ''num_attachments'',
          ''num_urgency_words'', ''has_urgency_words'', ''num_suspicious_keywords'',
          ''has_suspicious_keywords'',
          ''ioc_total_count'', ''has_ipv4_ioc'', ''has_url_ioc'', ''has_email_ioc'',
          ''has_hash_ioc'', ''ipv4_ioc_count'', ''url_ioc_count'', ''email_ioc_count'',
          ''domain_ioc_count'']"
      and n2: "get_feature_names e2 = Inr [''avg_url_length'', ''avg_word_length'', ''body_length'', ''domain_ioc_count'',
    ''email_ioc_count'', ''has_attachments'', ''has_email_ioc'', ''has_hash_ioc'',
    ''has_ip_address'', ''has_ipv4_ioc'', ''has_shortened_url'', ''has_suspicious_keywords'',
    ''has_suspicious_tld'', ''has_urgency_words'', ''has_url_ioc'', ''ioc_total_count'',
    ''ipv4_ioc_count'', ''length'', ''max_url_length'', ''num_at_symbols'',
    ''num_attachments'', ''num_exclamation'', ''num_links'', ''num_question'',
    ''num_recipients'', ''num_sentences'', ''num_suspicious_keywords'', ''num_uppercase'',
    ''num_urgency_words'', ''num_words'', ''sender_has_numbers'', ''subject_length'',
    ''uppercase_ratio'', ''url_ioc_count'']" and g2: "get_feature_vector e2 = Inr v2"
      and m2: "map Some v2 = map (map_of f2) [''avg_url_length'', ''avg_word_length'', ''body_length'', ''domain_ioc_count'',
    ''email_ioc_count'', ''has_attachments'', ''has_email_ioc'', ''has_hash_ioc'',
    ''has_ip_address'', ''has_ipv4_ioc'', ''has_shortened_url'', ''has_suspicious_keywords'',
    ''has_suspicious_tld'', ''has_urgency_words'', ''has_url_ioc'', ''ioc_total_count'',
    ''ipv4_ioc_count'', ''length'', ''max_url_length'', ''num_at_symbols'',
    ''num_attachments'', ''num_exclamation'', ''num_links'', ''num_question'',
    ''num_recipients'', ''num_sentences'', ''num_suspicious_keywords'', ''num_uppercase'',
    ''num_urgency_words'', ''num_words'', ''sender_has_numbers'', ''subject_length'',
    ''uppercase_ratio'', ''url_ioc_count'']"
    by (elim exE conjE)
  have l: "length f1 = 34" using arg_cong [OF k1, of length] by (simp only: length_map names_facts(3))
  have kk: "map fst f1 = map fst f2" unfolding k1 k2 ..
  have st: "set [''avg_url_length'', ''avg_word_length'', ''body_length'', ''domain_ioc_count'',
    ''email_ioc_count'', ''has_attachments'', ''has_email_ioc'', ''has_hash_ioc'',
    ''has_ip_address'', ''has_ipv4_ioc'', ''has_shortened_url'', ''has_suspicious_keywords'',
    ''has_suspicious_tld'', ''has_urgency_words'', ''has_url_ioc'', ''ioc_total_count'',
    ''ipv4_ioc_count'', ''length'', ''max_url_length'', ''num_at_symbols'',
    ''num_attachments'', ''num_exclamation'', ''num_links'', ''num_question'',
    ''num_recipients'', ''num_sentences'', ''num_suspicious_keywords'', ''num_uppercase'',
    ''num_urgency_words'', ''num_words'', ''sender_has_numbers'', ''subject_length'',
    ''uppercase_ratio'', ''url_ioc_count''] = set (map fst f1)" unfolding k1 by (rule names_facts(2))
  show ?thesis
    apply (rule exI [of _ "[''avg_url_length'', ''avg_word_length'', ''body_length'', ''domain_ioc_count'',
    ''email_ioc_count'', ''has_attachments'', ''has_email_ioc'', ''has_hash_ioc'',
    ''has_ip_address'', ''has_ipv4_ioc'', ''has_shortened_url'', ''has_suspicious_keywords'',
    ''has_suspicious_tld'', ''has_urgency_words'', ''has_url_ioc'', ''ioc_total_count'',
    ''ipv4_ioc_count'', ''length'', ''max_url_length'', ''num_at_symbols'',
    ''num_attachments'', ''num_exclamation'', ''num_links'', ''num_question'',
    ''num_recipients'', ''num_sentences'', ''num_suspicious_keywords'', ''num_uppercase'',
    ''num_urgency_words'', ''num_words'', ''sender_has_numbers'', ''subject_length'',
    ''uppercase_ratio'', ''url_ioc_count'']"], rule exI [of _ f1], rule exI [of _ f2],
           rule exI [of _ v1], rule exI [of _ v2])
    apply (intro conjI)
    apply (rule refl)
    apply (rule a1)
    apply (rule a2)
    apply (rule kk)
    apply (rule l)
    apply (rule st)
    apply (rule n1)
    apply (rule n2)
    apply (rule names_facts(1))
    apply (rule g1)
    apply (rule g2)
    apply (rule m1)
    apply (rule m2)
    done
qed

lemma text_total: "\<exists>f. extract_text_features text = Inr f"
  using text_keys [of "text"] by (elim exE conjE) (rule exI)

text \<open>
  C8. Feature encoding never raises: for every email data, whichever fields are absent,
  \<open>extract_all_features\<close> and \<open>get_feature_vector\<close> return a result, and
  \<open>extract_text_features\<close> does for every text. On the empty text the guarded average
  word length and uppercase ratio are 0; on the empty dictionary every feature is 0 but
  the length of the combined text, which is the single space between subject and body.
\<close>

theorem extract_all_features_total:
  "(\<exists>f. extract_all_features email_data = Inr f) \<and>
   (\<exists>v. get_feature_vector email_data = Inr v) \<and>
   (\<exists>f. extract_text_features text = Inr f) \<and>
   extract_text_features [] =
     Inr [(''length'', 0), (''num_words'', 0), (''num_sentences'', 0),
          (''avg_word_length'', 0), (''num_exclamation'', 0), (''num_question'', 0),
          (''num_uppercase'', 0), (''uppercase_ratio'', 0)] \<and>
   extract_all_features empty_email =
     Inr [(''length'', 1), (''num_words'', 0), (''num_sentences'', 0),
          (''avg_word_length'', 0), (''num_exclamation'', 0), (''num_question'', 0),
          (''num_uppercase'', 0), (''uppercase_ratio'', 0),
          (''num_links'', 0), (''has_shortened_url'', 0), (''has_suspicious_tld'', 0),
          (''has_ip_address'', 0), (''num_at_symbols'', 0), (''avg_url_length'', 0),
          (''max_url_length'', 0),
          (''subject_length'', 0), (''body_length'', 0), (''sender_has_numbers'', 0),
          (''num_recipients'', 0), (''has_attachments'', 0), (''num_attachments'', 0),
          (''num_urgency_words'', 0), (''has_urgency_words'', 0),
          (''num_suspicious_keywords'', 0), (''has_suspicious_keywords'', 0),
          (''ioc_total_count'', 0), (''has_ipv4_ioc'', 0), (''has_url_ioc'', 0),
          (''has_email_ioc'', 0), (''has_hash_ioc'', 0), (''ipv4_ioc_count'', 0),
          (''url_ioc_count'', 0), (''email_ioc_count'', 0), (''domain_ioc_count'', 0)]"
proof (intro conjI)
  from all_keys [of email_data] show "\<exists>f. extract_all_features email_data = Inr f"
    by (elim exE conjE) (rule exI)
  show "\<exists>v. get_feature_vector email_data = Inr v" by (rule get_feature_vector_Inr)
  show "\<exists>f. extract_text_features text = Inr f" by (rule text_total)
qed (rule empty_text, rule empty_all)

lemma dict_fromkeys_snoc:
  "dict_fromkeys (xs @ [x]) =
     (if x \<in> set (dict_fromkeys xs) then dict_fromkeys xs else dict_fromkeys xs @ [x])"
  by (simp add: dict_fromkeys_def)

lemma dict_fromkeys_set: "set (dict_fromkeys xs) = set xs"
proof (induction xs rule: rev_induct)
  case Nil
  show ?case by (simp add: dict_fromkeys_def)
next
  case (snoc x xs)
  then show ?case by (auto simp: dict_fromkeys_snoc)
qed

lemma dict_fromkeys_distinct: "distinct (dict_fromkeys xs)"
proof (induction xs rule: rev_induct)
  case Nil
  show ?case by (simp add: dict_fromkeys_def)
next
  case (snoc x xs)
  then show ?case by (auto simp: dict_fromkeys_snoc)
qed

lemma dict_fromkeys_first:
  "dict_fromkeys xs =
     map (\<lambda>i. xs ! i) (filter (\<lambda>i. xs ! i \<notin> set (take i xs)) [0..<length xs])"
proof (induction xs rule: rev_induct)
  case Nil
  show ?case by (simp add: dict_fromkeys_def)
next
  case (snoc x xs)
  let ?P = "\<lambda>ys i. ys ! i \<notin> set (take i ys)"
  have a: "filter (?P (xs @ [x])) [0..<length xs] = filter (?P xs) [0..<length xs]"
    by (rule filter_cong) (auto simp: nth_append)
  have b: "map ((!) (xs @ [x])) (filter (?P xs) [0..<length xs]) =
           map ((!) xs) (filter (?P xs) [0..<length xs])"
    by (rule map_cong) (auto simp: nth_append)
  have c: "?P (xs @ [x]) (length xs) \<longleftrightarrow> x \<notin> set xs" by simp
  have "map ((!) (xs @ [x])) (filter (?P (xs @ [x])) [0..<length (xs @ [x])]) =
        map ((!) (xs @ [x])) (filter (?P (xs @ [x])) ([0..<length xs] @ [length xs]))"
    by simp
  also have "\<dots> = map ((!) (xs @ [x])) (filter (?P (xs @ [x])) [0..<length xs]) @
                   (if x \<notin> set xs then [x] else [])"
    unfolding filter_append map_append using c by simp
  also have "\<dots> = dict_fromkeys xs @ (if x \<notin> set xs then [x] else [])"
    unfolding a b snoc.IH [symmetric] ..
  finally show ?case
    by (simp add: dict_fromkeys_snoc dict_fromkeys_set)
qed

lemma lookup_extracted:
  assumes "distinct (map fst ps)" and "(t, p) \<in> set ps"
  shows "(case map_of (concat (map (\<lambda>(k, q). if h q \<noteq> [] then [(k, h q)] else []) ps)) t of
            None \<Rightarrow> [] | Some vs \<Rightarrow> vs) = h p"
  using assms
proof (induction ps)
  case Nil
  then show ?case by simp
next
  case (Cons kq ps)
  obtain k q where kq: "kq = (k, q)" by (cases kq)
  have keys: "\<And>t. t \<notin> fst ` set ps \<Longrightarrow>
     map_of (concat (map (\<lambda>(k, q). if h q \<noteq> [] then [(k, h q)] else []) ps)) t = None"
    by (force simp: map_of_eq_None_iff split: if_splits)
  show ?case
  proof (cases "t = k")
    case True
    then have nk: "t \<notin> fst ` set ps" using Cons.prems(1) kq by simp
    then have pq: "p = q" using Cons.prems(2) kq True by (auto simp: image_iff)
    show ?thesis using True pq kq keys [OF nk] by simp
  next
    case False
    then have "(t, p) \<in> set ps" using Cons.prems(2) kq by simp
    then show ?thesis using Cons.IH Cons.prems(1) False kq by simp
  qed
qed

lemma patterns_distinct: "distinct (map fst patterns)"
  by (simp add: patterns_def)

lemma iocs_of_type_extract:
  "(t, p) \<in> set patterns \<Longrightarrow>
   iocs_of_type (extract_iocs text) t = dict_fromkeys (findall True p text)"
  unfolding iocs_of_type_def extract_iocs_def Let_def
  by (rule lookup_extracted [OF patterns_distinct, where h = "\<lambda>q. dict_fromkeys (findall True q text)"])

text \<open>
  C6 (as amended). For every text and every indicator type, extraction returns the values
  that the left-to-right, non-overlapping scan with the type's pattern matches, each once:
  as many indicators as there are distinct matched values, no duplicates, and in the
  order of their first occurrence in the text (the value at each position of the match
  list that is not among the matches before it).
\<close>

theorem extract_iocs_dedup:
  "(t, p) \<in> set patterns \<longrightarrow>
     iocs_of_type (extract_iocs text) t = dict_fromkeys (findall True p text) \<and>
     distinct (iocs_of_type (extract_iocs text) t) \<and>
     set (iocs_of_type (extract_iocs text) t) = set (findall True p text) \<and>
     length (iocs_of_type (extract_iocs text) t) = card (set (findall True p text)) \<and>
     iocs_of_type (extract_iocs text) t =
       map (\<lambda>i. findall True p text ! i)
         (filter (\<lambda>i. findall True p text ! i \<notin> set (take i (findall True p text)))
            [0..<length (findall True p text)])"
proof
  assume tp: "(t, p) \<in> set patterns"
  have e: "iocs_of_type (extract_iocs text) t = dict_fromkeys (findall True p text)"
    by (rule iocs_of_type_extract [OF tp])
  have c: "length (dict_fromkeys (findall True p text)) = card (set (findall True p text))"
    using distinct_card [OF dict_fromkeys_distinct, of "findall True p text"]
    by (simp add: dict_fromkeys_set)
  show "iocs_of_type (extract_iocs text) t = dict_fromkeys (findall True p text) \<and>
     distinct (iocs_of_type (extract_iocs text) t) \<and>
     set (iocs_of_type (extract_iocs text) t) = set (findall True p text) \<and>
     length (iocs_of_type (extract_iocs text) t) = card (set (findall True p text)) \<and>
     iocs_of_type (extract_iocs text) t =
       map (\<lambda>i. findall True p text ! i)
         (filter (\<lambda>i. findall True p text ! i \<notin> set (take i (findall True p text)))
            [0..<length (findall True p text)])"
    unfolding e
    apply (intro conjI)
        apply (rule refl)
       apply (rule dict_fromkeys_distinct)
      apply (rule dict_fromkeys_set)
     apply (rule c)
    apply (rule dict_fromkeys_first)
    done
qed


lemma ipv4_example:
  "findall True ipv4_pattern ''from 10.0.0.1 via 8.8.8.8 to 10.0.0.1 and 1.1.1.1'' =
     [''10.0.0.1'', ''8.8.8.8'', ''10.0.0.1'', ''1.1.1.1'']"
  by code_simp

lemma ipv4_in_patterns: "(''ipv4'', ipv4_pattern) \<in> set patterns"
  by (simp add: patterns_def)

theorem extract_iocs_dedup_witness:
  "(''ipv4'', ipv4_pattern) \<in> set patterns \<and>
   iocs_of_type (extract_iocs ''from 10.0.0.1 via 8.8.8.8 to 10.0.0.1 and 1.1.1.1'') ''ipv4'' =
     [''10.0.0.1'', ''8.8.8.8'', ''1.1.1.1'']"
proof -
  have d: "dict_fromkeys [''10.0.0.1'', ''8.8.8.8'', ''10.0.0.1'', ''1.1.1.1''] =
             [''10.0.0.1'', ''8.8.8.8'', ''1.1.1.1'']"
    by code_simp
  show ?thesis
    using extract_iocs_dedup
      [of "''ipv4''" ipv4_pattern "''from 10.0.0.1 via 8.8.8.8 to 10.0.0.1 and 1.1.1.1''"]
      ipv4_in_patterns
    unfolding ipv4_example d by (elim impE conjE) (assumption, rule conjI, assumption+)
qed

lemma quads_in_12345:
  "spec_contained_quads ''1.2.3.4.5'' = [''1.2.3.4'', ''2.3.4.5'']"
  "spec_quad_tokens ''1.2.3.4.5'' = []"
  by code_simp+

lemma findall_12345: "findall True ipv4_pattern ''1.2.3.4.5'' = [''1.2.3.4'']"
  by code_simp

text \<open>
  The claim C6 as stated fails on the text \<^verbatim>\<open>1.2.3.4.5\<close>: it contains the two distinct
  valid dotted quads \<^verbatim>\<open>1.2.3.4\<close> and \<^verbatim>\<open>2.3.4.5\<close> as substrings (and none as a
  whitespace-separated token), and extraction returns the one indicator \<^verbatim>\<open>1.2.3.4\<close>.
\<close>

theorem ipv4_substrings_not_all_extracted:
  "spec_contained_quads ''1.2.3.4.5'' = [''1.2.3.4'', ''2.3.4.5''] \<and>
   spec_quad_tokens ''1.2.3.4.5'' = [] \<and>
   iocs_of_type (extract_iocs ''1.2.3.4.5'') ''ipv4'' = [''1.2.3.4'']"
proof -
  have d: "dict_fromkeys [''1.2.3.4''] = [''1.2.3.4'']" by (simp add: dict_fromkeys_def)
  show ?thesis
    unfolding iocs_of_type_extract [OF ipv4_in_patterns] findall_12345 d quads_in_12345
    by (intro conjI refl)
qed

lemma c4_findall:
  "findall True ipv4_pattern
     (''security@secure-bank.tk'' @ newline @
      ''URGENT: Action Required - Verify Your Account Immediately'' @ newline @
      ''Please verify your account immediately or it will be suspended. Click here to confirm: http://secure-bank.tk/login'' @ newline) = []"
  "findall True url_pattern
     (''security@secure-bank.tk'' @ newline @
      ''URGENT: Action Required - Verify Your Account Immediately'' @ newline @
      ''Please verify your account immediately or it will be suspended. Click here to confirm: http://secure-bank.tk/login'' @ newline) = [''http://secure-bank.tk/login'']"
  "findall True email_pattern
     (''security@secure-bank.tk'' @ newline @
      ''URGENT: Action Required - Verify Your Account Immediately'' @ newline @
      ''Please verify your account immediately or it will be suspended. Click here to confirm: http://secure-bank.tk/login'' @ newline) = [''security@secure-bank.tk'']"
  "findall True domain_pattern
     (''security@secure-bank.tk'' @ newline @
      ''URGENT: Action Required - Verify Your Account Immediately'' @ newline @
      ''Please verify your account immediately or it will be suspended. Click here to confirm: http://secure-bank.tk/login'' @ newline) = [''secure-bank.tk'', ''secure-bank.tk'']"
  "findall True (hash_pattern 32)
     (''security@secure-bank.tk'' @ newline @
      ''URGENT: Action Required - Verify Your Account Immediately'' @ newline @
      ''Please verify your account immediately or it will be suspended. Click here to confirm: http://secure-bank.tk/login'' @ newline) = []"
  "findall True (hash_pattern 40)
     (''security@secure-bank.tk'' @ newline @
      ''URGENT: Action Required - Verify Your Account Immediately'' @ newline @
      ''Please verify your account immediately or it will be suspended. Click here to confirm: http://secure-bank.tk/login'' @ newline) = []"
  "findall True (hash_pattern 64)
     (''security@secure-bank.tk'' @ newline @
      ''URGENT: Action Required - Verify Your Account Immediately'' @ newline @
      ''Please verify your account immediately or it will be suspended. Click here to confirm: http://secure-bank.tk/login'' @ newline) = []"
  by code_simp+

lemma c4_dedup:
  "dict_fromkeys ([] :: string list) = []"
  "dict_fromkeys [''http://secure-bank.tk/login''] = [''http://secure-bank.tk/login'']"
  "dict_fromkeys [''security@secure-bank.tk''] = [''security@secure-bank.tk'']"
  "dict_fromkeys [''secure-bank.tk'', ''secure-bank.tk''] = [''secure-bank.tk'']"
  by (simp_all add: dict_fromkeys_def)

lemma c4_severity:
  "determine_severity ''url'' ''http://secure-bank.tk/login'' = ''high''"
  "determine_severity ''email'' ''security@secure-bank.tk'' = ''low''"
  "determine_severity ''domain'' ''secure-bank.tk'' = ''high''"
  by code_simp+

lemma c4_iocs:
  "extract_from_email c4_email =
     [\<lparr>ioc_type = ''url'', ioc_value = ''http://secure-bank.tk/login'', severity = ''high''\<rparr>,
      \<lparr>ioc_type = ''email'', ioc_value = ''security@secure-bank.tk'', severity = ''low''\<rparr>,
      \<lparr>ioc_type = ''domain'', ioc_value = ''secure-bank.tk'', severity = ''high''\<rparr>]"
proof -
  have f: "sender c4_email = Some ''security@secure-bank.tk''"
    "subject c4_email = Some ''URGENT: Action Required - Verify Your Account Immediately''"
    "body c4_email = Some ''Please verify your account immediately or it will be suspended. Click here to confirm: http://secure-bank.tk/login''"
    "headers c4_email = None"
    by (simp_all add: c4_email_def empty_email_def)
  show ?thesis
    unfolding extract_from_email_def f option.case append_Nil2 append_assoc Let_def
      extract_iocs_def patterns_def list.map prod.case c4_findall c4_dedup
    by (simp add: c4_severity)
qed

lemma c4_counts:
  "count_if (\<lambda>word. py_in word (combined_lower c4_email)) urgency_words = 5"
  "count_if (\<lambda>keyword. py_in keyword (combined_lower c4_email)) suspicious_keywords = 3"
  "count_if (\<lambda>keyword. py_in keyword (combined_lower c4_email)) confidence_suspicious_keywords = 1"
  "py_any (\<lambda>tld. py_in tld (lower (get_or (sender c4_email) []))) suspicious_tlds"
  by code_simp+

lemma c4_scores:
  "ioc_score
     [\<lparr>ioc_type = ''url'', ioc_value = ''http://secure-bank.tk/login'', severity = ''high''\<rparr>,
      \<lparr>ioc_type = ''email'', ioc_value = ''security@secure-bank.tk'', severity = ''low''\<rparr>,
      \<lparr>ioc_type = ''domain'', ioc_value = ''secure-bank.tk'', severity = ''high''\<rparr>] = 30"
  "phishing_score c4_email
     [\<lparr>ioc_type = ''url'', ioc_value = ''http://secure-bank.tk/login'', severity = ''high''\<rparr>,
      \<lparr>ioc_type = ''email'', ioc_value = ''security@secure-bank.tk'', severity = ''low''\<rparr>,
      \<lparr>ioc_type = ''domain'', ioc_value = ''secure-bank.tk'', severity = ''high''\<rparr>] = 120"
  "calculate_confidence_score c4_email
     [\<lparr>ioc_type = ''url'', ioc_value = ''http://secure-bank.tk/login'', severity = ''high''\<rparr>,
      \<lparr>ioc_type = ''email'', ioc_value = ''security@secure-bank.tk'', severity = ''low''\<rparr>,
      \<lparr>ioc_type = ''domain'', ioc_value = ''secure-bank.tk'', severity = ''high''\<rparr>] = 72"
  by code_simp+

text \<open>
  The claim C4 as stated fails in its confidence score: five of the urgency words occur
  in the example email (urgent, immediately, action required, verify, suspend), so the
  urgency term is min(5 * 8, 25) = 25 and the confidence is 72, not 71.
\<close>

theorem example_confidence_is_not_71:
  "count_if (\<lambda>word. py_in word (combined_lower c4_email)) urgency_words = 5 \<and>
   calculate_confidence_score c4_email (extract_from_email c4_email) \<noteq> 71"
  unfolding c4_iocs c4_scores c4_counts(1-3) by simp

text \<open>
  C4 (as amended). For the example email the extractor finds a high-severity url, a
  low-severity email address and a high-severity domain; the rule score is 120
  (30 urgency + 25 suspicious keywords + 35 sender domain + 30 indicators), so the email
  is phishing; the confidence score is 72 (25 urgency + 7 suspicious keyword + 20 sender
  domain + 20 high-severity indicators), and the risk level is High.
\<close>

theorem example_scores:
  "extract_from_email c4_email =
     [\<lparr>ioc_type = ''url'', ioc_value = ''http://secure-bank.tk/login'', severity = ''high''\<rparr>,
      \<lparr>ioc_type = ''email'', ioc_value = ''security@secure-bank.tk'', severity = ''low''\<rparr>,
      \<lparr>ioc_type = ''domain'', ioc_value = ''secure-bank.tk'', severity = ''high''\<rparr>] \<and>
   count_if (\<lambda>word. py_in word (combined_lower c4_email)) urgency_words = 5 \<and>
   count_if (\<lambda>keyword. py_in keyword (combined_lower c4_email)) suspicious_keywords = 3 \<and>
   count_if (\<lambda>keyword. py_in keyword (combined_lower c4_email))
     confidence_suspicious_keywords = 1 \<and>
   py_any (\<lambda>tld. py_in tld (lower (get_or (sender c4_email) []))) suspicious_tlds \<and>
   ioc_score (extract_from_email c4_email) = 30 \<and>
   phishing_score c4_email (extract_from_email c4_email) = 120 \<and>
   detect_phishing_simple c4_email (extract_from_email c4_email) \<and>
   calculate_confidence_score c4_email (extract_from_email c4_email) = 72 \<and>
   get_risk_level (detect_phishing_simple c4_email (extract_from_email c4_email))
     (real (calculate_confidence_score c4_email (extract_from_email c4_email))) = ''High''"
  unfolding detect_phishing_simple_def c4_iocs c4_scores c4_counts(1-3)
  using c4_counts(4) by (simp add: get_risk_level_def)


end
